theory Spec2Isabelle
  imports Main "HOL-Library.Word"
begin

section \<open>The GekkoNet netplay wrapper (netplay\_gekkonet.c)\<close>

text \<open>
  A shallow embedding of \<^verbatim>\<open>network/netplay/netplay_gekkonet.c\<close>. The C file keeps its
  state in one \<^verbatim>\<open>ra_gekkonet_ctx_t\<close> and three file-level globals, and talks to three
  outside parties: the GekkoNet engine (\<^verbatim>\<open>gekko_*\<close>), the host callbacks stored in the
  context, and the C library with its sockets. In the model
  \<^item> the context is a record, a pointer field is an \<open>option\<close> (\<open>None\<close> is \<^verbatim>\<open>NULL\<close>) or,
    where only its being \<^verbatim>\<open>NULL\<close> is ever read, a \<open>bool\<close>;
  \<^item> \<^verbatim>\<open>unsigned int\<close>, \<^verbatim>\<open>unsigned short\<close> and \<^verbatim>\<open>unsigned char\<close> are 32, 16 and 8 bit words;
    the two actor counters are C \<^verbatim>\<open>int\<close>s that only ever count up by one from zero, and are
    \<open>int\<close> here (signed overflow, undefined in C, would need \<open>2^31\<close> registrations);
  \<^item> a host callback is a function on a host state \<open>'h\<close> that the model threads through;
  \<^item> what the engine, the allocator and the sockets answer is an argument of the function
    that asks (its \<open>env\<close>), so that every outcome the C code tests is a branch here;
  \<^item> every call that leaves the file is appended to a trace, together with what
    \<^verbatim>\<open>ra_gekkonet_get_current_input\<close> would return if it were called at that moment.
  The context pointer itself is the record that is passed around, so the \<^verbatim>\<open>!ctx\<close> tests
  of the C functions have no counterpart.
\<close>

type_synonym byte = "8 word"
type_synonym u8 = "8 word"
type_synonym u16 = "16 word"
type_synonym u32 = "32 word"

subsection \<open>Types of gekkonet.h that the file uses\<close>

datatype GekkoPlayerType = LocalPlayer | RemotePlayer | Spectator

record GekkoConfig =
  num_players :: u8
  max_spectators :: u8
  input_prediction_window :: u8
  spectator_delay :: u8
  cfg_input_size :: u32
  cfg_state_size :: u32
  limited_saving :: bool
  post_sync_joining :: bool
  desync_detection :: bool

text \<open>
  A \<^verbatim>\<open>GekkoNetAddress\<close> is a pointer and a byte count. The model keeps the bytes the pointer
  leads to, so the count is the length of the list; \<open>None\<close> is a \<^verbatim>\<open>NULL\<close> data pointer.
\<close>

type_synonym GekkoNetAddress = "string option"

record GekkoNetResult =
  res_addr :: string
  res_data :: "byte list"

text \<open>
  The payloads of the three game events. \<open>adv_inputs\<close> and \<open>load_state\<close> are the bytes
  readable behind the event's pointer. \<open>save_state\<close> says whether the destination pointer
  is non-\<^verbatim>\<open>NULL\<close>; \<open>save_state_len\<close> and \<open>save_checksum\<close> are pointers to an
  \<^verbatim>\<open>unsigned int\<close>, given by the value stored there.
\<close>

record Advance =
  adv_frame :: int
  adv_input_len :: u32
  adv_inputs :: "byte list option"
  adv_rolling_back :: bool

record Save =
  save_frame :: int
  save_state :: bool
  save_state_len :: "u32 option"
  save_checksum :: "u32 option"

record Load =
  load_frame :: int
  load_state :: "byte list option"
  load_state_len :: u32

datatype GekkoGameEvent =
    EmptyGameEvent
  | AdvanceEvent Advance
  | SaveEvent Save
  | LoadEvent Load
  | OtherGameEvent int

datatype GekkoSessionEvent = SessionEvent int

subsection \<open>Calls that leave the file\<close>

text \<open>
  The trace records the calls into the engine, the host callbacks, the socket calls and
  \<^verbatim>\<open>free\<close> of the blocks the context owns (\<^verbatim>\<open>free(NULL)\<close> does nothing and is not recorded).
\<close>

datatype block = Input_buf | Addr_copy string | Remote_addr string | Remote_addrs_array

datatype call =
    Gekko_create
  | Gekko_destroy nat
  | Gekko_net_adapter_set nat
  | Gekko_start nat GekkoConfig
  | Gekko_add_actor nat GekkoPlayerType GekkoNetAddress
  | Gekko_set_local_delay nat int u8
  | Gekko_add_local_input nat int "byte list"
  | Gekko_network_poll nat
  | Gekko_session_events nat
  | Gekko_update_session nat
  | Save_cb u32
  | Load_cb "byte list" u32
  | Run_frame_cb
  | Session_event_cb GekkoSessionEvent
  | Sys_socket
  | Sys_set_nonblock int
  | Sys_bind int u16
  | Sys_close int
  | Sys_sendto int "nat list" u16 "byte list"
  | Sys_recvfrom int
  | Libc_free block

subsection \<open>The context\<close>

text \<open>
  \<open>save_state_cb\<close>: the capacity handed over, and whether the host reports success. What
  the host writes through \<^verbatim>\<open>dst\<close>, \<^verbatim>\<open>out_size\<close> and \<^verbatim>\<open>out_crc\<close> lands in memory of the engine
  that this file reads back only to log it; it is part of the host state.
  \<open>run_frame_cb\<close> has no argument in C; the host reads the input of the frame with
  \<^verbatim>\<open>ra_gekkonet_get_current_input\<close> while it runs, so the model hands it that value.
\<close>

type_synonym 'h save_state_cb = "u32 \<Rightarrow> 'h \<Rightarrow> bool \<times> 'h"
type_synonym 'h load_state_cb = "byte list \<Rightarrow> u32 \<Rightarrow> 'h \<Rightarrow> bool \<times> 'h"
type_synonym 'h run_frame_cb = "byte list option \<Rightarrow> 'h \<Rightarrow> 'h"
type_synonym 'h session_event_cb = "GekkoSessionEvent \<Rightarrow> byte list option \<Rightarrow> 'h \<Rightarrow> 'h"

text \<open>
  \<open>session\<close> is the engine handle. \<open>adapter\<close> says whether \<^verbatim>\<open>ctx->adapter\<close> is set; the
  adapter it points to is the global \<open>g_udp_adapter\<close> below. \<open>current_input\<close> is only ever
  \<^verbatim>\<open>NULL\<close> or equal to \<open>current_input_buf\<close>, so it is the flag "points at the buffer".
  \<open>remote_addrs\<close> is the array of \<open>remote_addrs_cap\<close> string pointers, of which the first
  \<open>remote_addrs_count\<close> are in use.
\<close>

record 'h ra_gekkonet_ctx =
  session :: "nat option"
  adapter :: bool
  cfg :: GekkoConfig
  bound_port :: u16
  save_cb :: "'h save_state_cb option"
  load_cb :: "'h load_state_cb option"
  run_frame_cb :: "'h run_frame_cb option"
  session_event_cb :: "'h session_event_cb option"
  state_size :: u32
  input_size :: u32
  current_input_buf :: "byte list option"
  current_input :: bool
  remote_addrs :: "string option list"
  remote_addrs_count :: nat
  remote_addrs_cap :: nat
  local_actor_count :: int
  remote_actor_count :: int
  ready_for_state :: bool
  owns_adapter :: bool
  active :: bool
  advanced_frame :: bool

record ra_gekkonet_udp_adapter =
  sockfd :: int
  owner :: bool

text \<open>
  The state of the program: the context, the statics of the file, the host, the trace, and
  \<open>ub\<close>, which is raised when the C code reads or writes outside a block of memory. What
  the C program does after that is undefined; the model raises the flag and goes on.
\<close>

record 'h sys =
  ctx :: "'h ra_gekkonet_ctx"
  g_udp_adapter :: "ra_gekkonet_udp_adapter option"
  g_udp_results_cap :: nat
  host :: 'h
  trace :: "(call \<times> byte list option) list"
  ub :: bool

definition ra_gekkonet_get_current_input :: "'h ra_gekkonet_ctx \<Rightarrow> byte list option" where
  "ra_gekkonet_get_current_input c = (if current_input c then current_input_buf c else None)"

definition emit :: "call \<Rightarrow> 'h sys \<Rightarrow> 'h sys" where
  "emit k s = s\<lparr>trace := trace s @ [(k, ra_gekkonet_get_current_input (ctx s))]\<rparr>"

subsection \<open>The address registry\<close>

text \<open>
  \<^verbatim>\<open>ra_gekkonet_addr_known\<close>: a linear scan of the slots in use, skipping \<^verbatim>\<open>NULL\<close> slots;
  a \<^verbatim>\<open>NULL\<close> address counts as known. The C code never reads a slot at or beyond the
  array, since its count stays within the capacity; the model has no such slot.
\<close>

definition ra_gekkonet_addr_known :: "'h ra_gekkonet_ctx \<Rightarrow> string option \<Rightarrow> bool" where
  "ra_gekkonet_addr_known c addr =
     (case addr of
        None \<Rightarrow> True
      | Some a \<Rightarrow> Some a \<in> set (take (remote_addrs_count c) (remote_addrs c)))"

text \<open>
  \<^verbatim>\<open>ra_gekkonet_remember_addr\<close>. \<open>realloc_ok\<close> and \<open>malloc_ok\<close> are the outcomes of the two
  allocations; \<^verbatim>\<open>realloc\<close> is only asked when the array is full. The grown part of the
  array is zeroed.
\<close>

record alloc_env =
  realloc_ok :: bool
  malloc_ok :: bool

definition ra_gekkonet_remember_addr ::
  "alloc_env \<Rightarrow> 'h ra_gekkonet_ctx \<Rightarrow> string option \<Rightarrow> 'h ra_gekkonet_ctx" where
  "ra_gekkonet_remember_addr e c addr =
     (case addr of
        None \<Rightarrow> c
      | Some a \<Rightarrow>
          if ra_gekkonet_addr_known c addr then c
          else if remote_addrs_count c \<ge> remote_addrs_cap c \<and> \<not> realloc_ok e then c
          else
            let c1 = (if remote_addrs_count c \<ge> remote_addrs_cap c
                      then
                        let new_cap = (if remote_addrs_cap c \<noteq> 0 then remote_addrs_cap c * 2 else 4)
                        in c\<lparr>remote_addrs := remote_addrs c @ replicate (new_cap - remote_addrs_cap c) None,
                             remote_addrs_cap := new_cap\<rparr>
                      else c)
            in if \<not> malloc_ok e then c1
               else c1\<lparr>remote_addrs := (remote_addrs c1)[remote_addrs_count c1 := Some a],
                       remote_addrs_count := remote_addrs_count c1 + 1\<rparr>)"

text \<open>The registry as a list of the slots in use, and the shape the C code maintains.\<close>

definition registry :: "'h ra_gekkonet_ctx \<Rightarrow> string option list" where
  "registry c = take (remote_addrs_count c) (remote_addrs c)"

definition addrs_wf :: "'h ra_gekkonet_ctx \<Rightarrow> bool" where
  "addrs_wf c \<longleftrightarrow>
     remote_addrs_count c \<le> remote_addrs_cap c \<and> length (remote_addrs c) = remote_addrs_cap c"

definition registry_ok :: "'h ra_gekkonet_ctx \<Rightarrow> bool" where
  "registry_ok c \<longleftrightarrow> addrs_wf c \<and> distinct (registry c)"

subsection \<open>The UDP adapter\<close>

text \<open>
  \<^verbatim>\<open>ra_gekkonet_udp_adapter_create\<close>, the branch compiled without \<^verbatim>\<open>_WIN32\<close>. The answers of
  \<^verbatim>\<open>calloc\<close>, \<^verbatim>\<open>socket\<close>, \<^verbatim>\<open>fcntl\<close> and \<^verbatim>\<open>bind\<close> come with the call. On success the new adapter
  is the global \<open>g_udp_adapter\<close>; on failure the function returns \<^verbatim>\<open>NULL\<close> (\<open>False\<close>).
\<close>

record adapter_env =
  adapter_calloc_ok :: bool
  socket_fd :: int
  nonblock_ok :: bool
  bind_ok :: bool

definition ra_gekkonet_udp_adapter_create :: "adapter_env \<Rightarrow> u16 \<Rightarrow> 'h sys \<Rightarrow> bool \<times> 'h sys" where
  "ra_gekkonet_udp_adapter_create e port s =
     (if \<not> adapter_calloc_ok e then (False, s)
      else
        let s1 = emit Sys_socket s in
        if socket_fd e < 0 then (False, s1)
        else
          let s2 = emit (Sys_set_nonblock (socket_fd e)) s1 in
          if \<not> nonblock_ok e then (False, emit (Sys_close (socket_fd e)) s2)
          else
            let s3 = emit (Sys_bind (socket_fd e) port) s2 in
            if \<not> bind_ok e then (False, emit (Sys_close (socket_fd e)) s3)
            else (True, s3\<lparr>g_udp_adapter := Some \<lparr>sockfd = socket_fd e, owner = False\<rparr>\<rparr>))"

text \<open>
  \<^verbatim>\<open>ra_gekkonet_udp_adapter_destroy\<close>, called on \<^verbatim>\<open>ctx->adapter\<close>, which is the global adapter.
\<close>

definition ra_gekkonet_udp_adapter_destroy :: "'h sys \<Rightarrow> 'h sys" where
  "ra_gekkonet_udp_adapter_destroy s =
     (case g_udp_adapter s of
        None \<Rightarrow> s
      | Some a \<Rightarrow>
          let s1 = (if sockfd a < 0 then s else emit (Sys_close (sockfd a)) s)
          in s1\<lparr>g_udp_results_cap := 0, g_udp_adapter := None\<rparr>)"

subsection \<open>Address parsing and sending\<close>

text \<open>
  The C library, as far as the file uses it. \<open>cstr\<close> is what a string function sees of a
  buffer: the bytes before the first NUL. \<open>strrchr\<close> gives the index of the last
  occurrence. \<open>strtoul\<close> is the base 10 conversion of the C standard for a 64 bit
  \<^verbatim>\<open>unsigned long\<close>: white space, an optional sign, the longest run of digits; no digits
  give 0, a value out of range gives \<^verbatim>\<open>ULONG_MAX\<close>. \<open>inet_pton4\<close> is \<^verbatim>\<open>inet_pton(AF_INET, ...)\<close>:
  four decimal octets up to 255, separated by dots, no leading zero.
\<close>

definition cstr :: "string \<Rightarrow> string" where
  "cstr b = takeWhile (\<lambda>c. c \<noteq> CHR 0x00) b"

fun strrchr :: "string \<Rightarrow> char \<Rightarrow> nat option" where
  "strrchr [] c = None"
| "strrchr (x # xs) c =
     (case strrchr xs c of
        Some i \<Rightarrow> Some (Suc i)
      | None \<Rightarrow> if x = c then Some 0 else None)"

definition digit_of :: "char \<Rightarrow> nat option" where
  "digit_of c =
     (let n = (of_char c :: nat)
      in if 48 \<le> n \<and> n \<le> 57 then Some (n - 48) else None)"

definition isspace :: "char \<Rightarrow> bool" where
  "isspace c \<longleftrightarrow>
     c = CHR '' '' \<or> c = CHR 0x09 \<or> c = CHR 0x0A \<or> c = CHR 0x0B \<or> c = CHR 0x0C \<or> c = CHR 0x0D"

fun strtoul_digits :: "string \<Rightarrow> nat \<Rightarrow> nat" where
  "strtoul_digits [] acc = acc"
| "strtoul_digits (c # cs) acc =
     (case digit_of c of
        None \<Rightarrow> acc
      | Some d \<Rightarrow> strtoul_digits cs (10 * acc + d))"

definition strtoul :: "string \<Rightarrow> 64 word" where
  "strtoul t =
     (let u = dropWhile isspace t;
          neg = (u \<noteq> [] \<and> hd u = CHR ''-'');
          v = (if u \<noteq> [] \<and> (hd u = CHR ''-'' \<or> hd u = CHR ''+'') then tl u else u);
          n = strtoul_digits v 0
      in if n > 2 ^ 64 - 1 then - 1
         else if neg then - of_nat n
         else of_nat n)"

fun inet_pton4_from :: "string \<Rightarrow> nat list \<Rightarrow> nat \<Rightarrow> bool \<Rightarrow> nat list option" where
  "inet_pton4_from [] octs cur saw =
     (if saw \<and> length octs = 3 then Some (octs @ [cur]) else None)"
| "inet_pton4_from (ch # rest) octs cur saw =
     (case digit_of ch of
        Some d \<Rightarrow>
          if saw \<and> cur = 0 then None
          else if cur * 10 + d > 255 then None
          else if \<not> saw \<and> length octs \<ge> 4 then None
          else inet_pton4_from rest octs (cur * 10 + d) True
      | None \<Rightarrow>
          if ch = CHR ''.'' \<and> saw then
            (if length octs = 3 then None else inet_pton4_from rest (octs @ [cur]) 0 False)
          else None)"

definition inet_pton4 :: "string \<Rightarrow> nat list option" where
  "inet_pton4 h = inet_pton4_from h [] 0 False"

text \<open>
  \<^verbatim>\<open>ra_gekkonet_parse_addr\<close>, as its one caller uses it: \<^verbatim>\<open>host\<close> and \<^verbatim>\<open>port\<close> are both given
  and \<open>host_sz\<close> is not zero. The address is copied into a buffer of 128 bytes and
  terminated; the last colon splits it. The port text goes through \<^verbatim>\<open>strtoul\<close> and is cut
  to 16 bits; nothing looks at where the conversion stopped. \<open>None\<close> is the result
  \<^verbatim>\<open>false\<close>.
\<close>

definition ra_gekkonet_parse_addr :: "GekkoNetAddress option \<Rightarrow> nat \<Rightarrow> (string \<times> u16) option" where
  "ra_gekkonet_parse_addr addr host_sz =
     (case addr of
        None \<Rightarrow> None
      | Some None \<Rightarrow> None
      | Some (Some d) \<Rightarrow>
          if length d = 0 \<or> length d \<ge> 128 then None
          else
            let buf = cstr d in
            (case strrchr buf (CHR '':'') of
               None \<Rightarrow> None
             | Some colon \<Rightarrow>
                 if colon = 0 then None
                 else
                   let port = (ucast (strtoul (drop (Suc colon) buf)) :: u16);
                       host_len = (if colon \<ge> host_sz then host_sz - 1 else colon)
                   in Some (take host_len buf, port)))"

text \<open>
  \<^verbatim>\<open>ra_gekkonet_udp_send\<close>: every failed test returns without a word; the engine gets no
  result either way, the function is \<^verbatim>\<open>void\<close>.
\<close>

definition ra_gekkonet_udp_send ::
  "GekkoNetAddress option \<Rightarrow> byte list option \<Rightarrow> int \<Rightarrow> 'h sys \<Rightarrow> 'h sys" where
  "ra_gekkonet_udp_send addr data len s =
     (case g_udp_adapter s of
        None \<Rightarrow> s
      | Some ad \<Rightarrow>
          (case data of
             None \<Rightarrow> s
           | Some d \<Rightarrow>
               if addr = None \<or> len \<le> 0 then s
               else
                 (case ra_gekkonet_parse_addr addr 64 of
                    None \<Rightarrow> s
                  | Some (h, port) \<Rightarrow>
                      (case inet_pton4 h of
                         None \<Rightarrow> s
                       | Some ip \<Rightarrow> emit (Sys_sendto (sockfd ad) ip port (take (nat len) d)) s))))"

subsection \<open>Session life cycle\<close>

record ra_gekkonet_params =
  p_num_players :: u8
  p_max_spectators :: u8
  p_input_prediction_window :: u8
  p_spectator_delay :: u8
  p_input_size :: u32
  p_state_size :: u32
  p_port :: u16
  p_limited_saving :: bool
  p_post_sync_joining :: bool
  p_desync_detection :: bool

text \<open>What \<^verbatim>\<open>memset(ctx, 0, sizeof(*ctx))\<close> leaves.\<close>

definition cfg_zero :: GekkoConfig where
  "cfg_zero =
     \<lparr>num_players = 0, max_spectators = 0, input_prediction_window = 0, spectator_delay = 0,
      cfg_input_size = 0, cfg_state_size = 0, limited_saving = False,
      post_sync_joining = False, desync_detection = False\<rparr>"

definition ctx_zero :: "'h ra_gekkonet_ctx" where
  "ctx_zero =
     \<lparr>session = None, adapter = False, cfg = cfg_zero, bound_port = 0,
      save_cb = None, load_cb = None, run_frame_cb = None, session_event_cb = None,
      state_size = 0, input_size = 0, current_input_buf = None, current_input = False,
      remote_addrs = [], remote_addrs_count = 0, remote_addrs_cap = 0,
      local_actor_count = 0, remote_actor_count = 0,
      ready_for_state = False, owns_adapter = False, active = False, advanced_frame = False\<rparr>"

text \<open>
  \<^verbatim>\<open>ra_gekkonet_init\<close>. \<open>gekko_create_result\<close> is the handle \<^verbatim>\<open>gekko_create\<close> stores, or
  \<open>None\<close> when it returns false (it then leaves the zeroed \<^verbatim>\<open>ctx->session\<close> alone);
  \<open>input_calloc_ok\<close> is the outcome of the \<^verbatim>\<open>calloc\<close> of the input buffer. A \<^verbatim>\<open>NULL\<close>
  \<^verbatim>\<open>params\<close> returns before the context is touched.
\<close>

record init_env =
  gekko_create_result :: "nat option"
  input_calloc_ok :: bool
  adapter_create :: adapter_env

definition ra_gekkonet_init ::
  "init_env \<Rightarrow> ra_gekkonet_params option \<Rightarrow> 'h save_state_cb option \<Rightarrow> 'h load_state_cb option
     \<Rightarrow> 'h sys \<Rightarrow> bool \<times> 'h sys" where
  "ra_gekkonet_init e params save load s =
     (case params of
        None \<Rightarrow> (False, s)
      | Some p \<Rightarrow>
          let c0 = ctx_zero\<lparr>save_cb := save, load_cb := load,
                            state_size := p_state_size p, input_size := p_input_size p\<rparr>;
              s0 = emit Gekko_create (s\<lparr>ctx := c0\<rparr>)
          in
          (case gekko_create_result e of
             None \<Rightarrow> (False, s0)
           | Some h \<Rightarrow>
               let c1 = c0\<lparr>session := Some h,
                           cfg := \<lparr>num_players = p_num_players p,
                                   max_spectators = p_max_spectators p,
                                   input_prediction_window = p_input_prediction_window p,
                                   spectator_delay = p_spectator_delay p,
                                   cfg_input_size = p_input_size p,
                                   cfg_state_size = p_state_size p,
                                   limited_saving = p_limited_saving p,
                                   post_sync_joining = p_post_sync_joining p,
                                   desync_detection = p_desync_detection p\<rparr>\<rparr>;
                   s1 = s0\<lparr>ctx := c1\<rparr>
               in
               if \<not> input_calloc_ok e then
                 (let s2 = emit (Gekko_destroy h) s1
                  in (False, s2\<lparr>ctx := (ctx s2)\<lparr>session := None\<rparr>\<rparr>))
               else
                 let c2 = c1\<lparr>current_input_buf := Some (replicate (unat (p_input_size p)) 0),
                             current_input := True,
                             ready_for_state := False\<rparr>;
                     (created, s3) = ra_gekkonet_udp_adapter_create (adapter_create e) (p_port p)
                                       (s1\<lparr>ctx := c2\<rparr>)
                 in
                 if \<not> created then
                   (let s4 = emit (Gekko_destroy h) s3
                    in (False, s4\<lparr>ctx := (ctx s4)\<lparr>session := None\<rparr>\<rparr>))
                 else
                   let s4 = s3\<lparr>ctx := (ctx s3)\<lparr>adapter := True, owns_adapter := True\<rparr>,
                               g_udp_adapter := map_option (\<lambda>a. a\<lparr>owner := True\<rparr>) (g_udp_adapter s3)\<rparr>;
                       s5 = emit (Gekko_net_adapter_set h) s4;
                       s6 = emit (Gekko_start h (cfg (ctx s5))) s5
                   in (True, s6\<lparr>ctx := (ctx s6)\<lparr>active := True\<rparr>\<rparr>)))"

definition ra_gekkonet_set_run_frame_cb :: "'h run_frame_cb option \<Rightarrow> 'h sys \<Rightarrow> 'h sys" where
  "ra_gekkonet_set_run_frame_cb cb s = s\<lparr>ctx := (ctx s)\<lparr>run_frame_cb := cb\<rparr>\<rparr>"

definition ra_gekkonet_set_session_event_cb :: "'h session_event_cb option \<Rightarrow> 'h sys \<Rightarrow> 'h sys" where
  "ra_gekkonet_set_session_event_cb cb s = s\<lparr>ctx := (ctx s)\<lparr>session_event_cb := cb\<rparr>\<rparr>"

text \<open>
  \<^verbatim>\<open>ra_gekkonet_deinit\<close>. The loop over the registry frees every slot in use;
  \<open>ready_for_state\<close> is not among the fields it resets.
\<close>

fun free_remote_addrs :: "string option list \<Rightarrow> 'h sys \<Rightarrow> 'h sys" where
  "free_remote_addrs [] s = s"
| "free_remote_addrs (None # xs) s = free_remote_addrs xs s"
| "free_remote_addrs (Some a # xs) s = free_remote_addrs xs (emit (Libc_free (Remote_addr a)) s)"

definition ra_gekkonet_deinit :: "'h sys \<Rightarrow> 'h sys" where
  "ra_gekkonet_deinit s =
     (if \<not> active (ctx s) then s
      else
        let s1 = (case session (ctx s) of None \<Rightarrow> s | Some h \<Rightarrow> emit (Gekko_destroy h) s);
            s2 = (if owns_adapter (ctx s1) \<and> adapter (ctx s1)
                  then (let d = ra_gekkonet_udp_adapter_destroy s1
                        in d\<lparr>ctx := (ctx d)\<lparr>adapter := False\<rparr>\<rparr>)
                  else s1);
            s3 = free_remote_addrs (take (remote_addrs_count (ctx s2)) (remote_addrs (ctx s2))) s2;
            s4 = (if remote_addrs_cap (ctx s3) \<noteq> 0 then emit (Libc_free Remote_addrs_array) s3 else s3);
            s5 = s4\<lparr>ctx := (ctx s4)\<lparr>remote_addrs := [], remote_addrs_count := 0,
                                      remote_addrs_cap := 0\<rparr>\<rparr>;
            s6 = (if current_input_buf (ctx s5) \<noteq> None then emit (Libc_free Input_buf) s5 else s5)
        in s6\<lparr>ctx := (ctx s6)\<lparr>current_input_buf := None, current_input := False,
                               session := None, owns_adapter := False, active := False,
                               local_actor_count := 0, remote_actor_count := 0\<rparr>\<rparr>)"

subsection \<open>Actors and local input\<close>

text \<open>
  \<^verbatim>\<open>ra_gekkonet_add_actor\<close>. \<open>copy_ok\<close> is the \<^verbatim>\<open>malloc\<close> of the address copy, \<open>handle\<close> what
  \<^verbatim>\<open>gekko_add_actor\<close> returns, \<open>remember\<close> the allocations of the registry. The copy handed
  to the engine includes the terminating NUL (\<^verbatim>\<open>strlen + 1\<close> bytes). The capacity test is
  made for \<open>RemotePlayer\<close> only.
\<close>

record actor_env =
  copy_ok :: bool
  handle :: int
  remember :: alloc_env

definition ra_gekkonet_add_actor ::
  "actor_env \<Rightarrow> GekkoPlayerType \<Rightarrow> string option \<Rightarrow> 'h sys \<Rightarrow> int \<times> 'h sys" where
  "ra_gekkonet_add_actor e type addr_string s =
     (case session (ctx s) of
        None \<Rightarrow> (- 1, s)
      | Some h \<Rightarrow>
          if type = RemotePlayer
             \<and> remote_actor_count (ctx s) + local_actor_count (ctx s) \<ge> uint (num_players (cfg (ctx s)))
          then (- 1, s)
          else
            let given = (addr_string \<noteq> None \<and> addr_string \<noteq> Some []) in
            if given \<and> \<not> copy_ok e then (- 1, s)
            else
              let addr = (case addr_string of
                            None \<Rightarrow> None
                          | Some a \<Rightarrow> if a = [] then None else Some (a @ [CHR 0x00]));
                  s1 = emit (Gekko_add_actor h type addr) s
              in
              if handle e < 0 then
                (- 1, (case addr of None \<Rightarrow> s1 | Some b \<Rightarrow> emit (Libc_free (Addr_copy b)) s1))
              else
                let c = ctx s1;
                    c' = (if type = LocalPlayer then c\<lparr>local_actor_count := local_actor_count c + 1\<rparr>
                          else if type = RemotePlayer then
                            (let c1 = c\<lparr>remote_actor_count := remote_actor_count c + 1\<rparr>
                             in if given then ra_gekkonet_remember_addr (remember e) c1 addr_string
                                else c1)
                          else c)
                in (handle e, s1\<lparr>ctx := c'\<rparr>))"

definition ra_gekkonet_set_local_delay :: "int \<Rightarrow> u8 \<Rightarrow> 'h sys \<Rightarrow> 'h sys" where
  "ra_gekkonet_set_local_delay actor_handle delay_frames s =
     (case session (ctx s) of
        None \<Rightarrow> s
      | Some h \<Rightarrow> emit (Gekko_set_local_delay h actor_handle delay_frames) s)"

definition ra_gekkonet_push_local_input :: "int \<Rightarrow> byte list option \<Rightarrow> 'h sys \<Rightarrow> bool \<times> 'h sys" where
  "ra_gekkonet_push_local_input actor_handle input_blob s =
     (case session (ctx s) of
        None \<Rightarrow> (False, s)
      | Some h \<Rightarrow>
          (case input_blob of
             None \<Rightarrow> (False, s)
           | Some b \<Rightarrow> (True, emit (Gekko_add_local_input h actor_handle b) s)))"

subsection \<open>Game events\<close>

text \<open>
  \<^verbatim>\<open>ra_gekkonet_handle_save\<close>: the requested length behind \<^verbatim>\<open>state_len\<close> is cut to
  \<open>state_size\<close> in place, and the callback gets the value read back from there.
\<close>

definition ra_gekkonet_handle_save :: "Save \<Rightarrow> 'h sys \<Rightarrow> 'h sys" where
  "ra_gekkonet_handle_save ev s =
     (case save_cb (ctx s) of
        None \<Rightarrow> s
      | Some cb \<Rightarrow>
          (case save_state_len ev of
             None \<Rightarrow> s
           | Some requested \<Rightarrow>
               if \<not> save_state ev then s
               else
                 let len = (if requested > state_size (ctx s) then state_size (ctx s) else requested);
                     s1 = emit (Save_cb len) s;
                     (ok, h') = cb len (host s1);
                     s2 = s1\<lparr>host := h'\<rparr>
                 in if \<not> ok then s2
                    else s2\<lparr>ctx := (ctx s2)\<lparr>ready_for_state := True\<rparr>\<rparr>))"

definition ra_gekkonet_handle_load :: "Load \<Rightarrow> 'h sys \<Rightarrow> 'h sys" where
  "ra_gekkonet_handle_load ev s =
     (case load_cb (ctx s) of
        None \<Rightarrow> s
      | Some cb \<Rightarrow>
          if \<not> ready_for_state (ctx s) then s
          else
            (case load_state ev of
               None \<Rightarrow> s
             | Some bytes \<Rightarrow>
                 if load_state_len ev = 0 then s
                 else
                   let s1 = emit (Load_cb bytes (load_state_len ev)) s;
                       (ok, h') = cb bytes (load_state_len ev) (host s1)
                   in s1\<lparr>host := h'\<rparr>))"

text \<open>
  \<^verbatim>\<open>memset\<close> and \<^verbatim>\<open>memcpy\<close> on blocks of bytes; a list is a block of exactly its length.
  Both write \<open>n\<close> bytes, and \<^verbatim>\<open>memcpy\<close> reads \<open>n\<close> bytes. \<open>None\<close> is the call that leaves a
  block, a write past the end of the destination or a read past the end of the source,
  which C leaves undefined.
\<close>

definition memset :: "byte list \<Rightarrow> byte \<Rightarrow> nat \<Rightarrow> byte list option" where
  "memset dst v n = (if n \<le> length dst then Some (replicate n v @ drop n dst) else None)"

definition memcpy :: "byte list \<Rightarrow> byte list \<Rightarrow> nat \<Rightarrow> byte list option" where
  "memcpy dst src n =
     (if n \<le> length dst \<and> n \<le> length src then Some (take n src @ drop n dst) else None)"

text \<open>
  \<^verbatim>\<open>ra_gekkonet_handle_advance\<close>. The short case zeroes \<open>input_size\<close> bytes and copies
  \<open>input_len\<close> bytes over them, the other case copies \<open>input_size\<close> bytes. If a call leaves
  a block, \<open>ub\<close> is raised and the model keeps the buffer as it was.
\<close>

definition ra_gekkonet_handle_advance :: "Advance \<Rightarrow> 'h sys \<Rightarrow> 'h sys" where
  "ra_gekkonet_handle_advance ev s =
     (case current_input_buf (ctx s) of
        None \<Rightarrow> s
      | Some buf \<Rightarrow>
          (case adv_inputs ev of
             None \<Rightarrow> s
           | Some inputs \<Rightarrow>
               let copied = (if adv_input_len ev < input_size (ctx s)
                             then (case memset buf 0 (unat (input_size (ctx s))) of
                                     None \<Rightarrow> None
                                   | Some zeroed \<Rightarrow> memcpy zeroed inputs (unat (adv_input_len ev)))
                             else memcpy buf inputs (unat (input_size (ctx s))));
                   s0 = (case copied of
                           None \<Rightarrow> s\<lparr>ub := True\<rparr>
                         | Some buf' \<Rightarrow> s\<lparr>ctx := (ctx s)\<lparr>current_input_buf := Some buf'\<rparr>\<rparr>);
                   s1 = s0\<lparr>ctx := (ctx s0)\<lparr>current_input := True\<rparr>\<rparr>;
                   s2 = (case run_frame_cb (ctx s1) of
                           None \<Rightarrow> s1
                         | Some cb \<Rightarrow>
                             let s' = emit Run_frame_cb s1
                             in s'\<lparr>host := cb (ra_gekkonet_get_current_input (ctx s')) (host s')\<rparr>)
               in s2\<lparr>ctx := (ctx s2)\<lparr>ready_for_state := True\<rparr>\<rparr>))"

text \<open>One turn of the loop of \<^verbatim>\<open>ra_gekkonet_process_game_events\<close>; \<open>None\<close> is a \<^verbatim>\<open>NULL\<close> entry.\<close>

fun dispatch_game_event :: "'h sys \<Rightarrow> GekkoGameEvent option \<Rightarrow> 'h sys" where
  "dispatch_game_event s None = s"
| "dispatch_game_event s (Some (SaveEvent ev)) = ra_gekkonet_handle_save ev s"
| "dispatch_game_event s (Some (LoadEvent ev)) = ra_gekkonet_handle_load ev s"
| "dispatch_game_event s (Some (AdvanceEvent ev)) = ra_gekkonet_handle_advance ev s"
| "dispatch_game_event s (Some EmptyGameEvent) = s"
| "dispatch_game_event s (Some (OtherGameEvent t)) = s"

text \<open>
  \<^verbatim>\<open>ra_gekkonet_process_game_events\<close>. \<open>events\<close> is what \<^verbatim>\<open>gekko_update_session\<close> returns:
  \<open>None\<close> for \<^verbatim>\<open>NULL\<close>, else the array, whose length is the count.
\<close>

definition ra_gekkonet_process_game_events ::
  "GekkoGameEvent option list option \<Rightarrow> 'h sys \<Rightarrow> 'h sys" where
  "ra_gekkonet_process_game_events events s =
     (case session (ctx s) of
        None \<Rightarrow> s
      | Some h \<Rightarrow>
          let s1 = s\<lparr>ctx := (ctx s)\<lparr>current_input := False\<rparr>\<rparr>;
              s2 = emit (Gekko_update_session h) s1
          in (case events of
                None \<Rightarrow> s2
              | Some evs \<Rightarrow> foldl dispatch_game_event s2 evs))"

fun forward_session_event :: "'h sys \<Rightarrow> GekkoSessionEvent option \<Rightarrow> 'h sys" where
  "forward_session_event s None = s"
| "forward_session_event s (Some ev) =
     (case session_event_cb (ctx s) of
        None \<Rightarrow> s
      | Some cb \<Rightarrow>
          let s' = emit (Session_event_cb ev) s
          in s'\<lparr>host := cb ev (ra_gekkonet_get_current_input (ctx s')) (host s')\<rparr>)"

definition ra_gekkonet_process_session_events ::
  "GekkoSessionEvent option list option \<Rightarrow> 'h sys \<Rightarrow> 'h sys" where
  "ra_gekkonet_process_session_events events s =
     (case session (ctx s) of
        None \<Rightarrow> s
      | Some h \<Rightarrow>
          let s1 = emit (Gekko_session_events h) s
          in (case events of
                None \<Rightarrow> s1
              | Some evs \<Rightarrow> foldl forward_session_event s1 evs))"

subsection \<open>Receiving\<close>

text \<open>\<^verbatim>\<open>%hu\<close>: an unsigned number in decimal.\<close>

fun dec_str :: "nat \<Rightarrow> string" where
  "dec_str n =
     (if n < 10 then [''0123456789'' ! n]
      else dec_str (n div 10) @ [''0123456789'' ! (n mod 10)])"

declare dec_str.simps [simp del]

text \<open>
  The sender as \<^verbatim>\<open>snprintf(addrbuf, sizeof(addrbuf), "%s:%hu", ip, port)\<close> writes it into the
  96 bytes of \<^verbatim>\<open>addrbuf\<close>.
\<close>

definition sender_text :: "string \<Rightarrow> u16 \<Rightarrow> string" where
  "sender_text ip port = take 95 (ip @ '':'' @ dec_str (unat port))"

text \<open>
  One datagram waiting on the socket, with the answers the turn of the loop that reads
  it gets: \<open>dg_ip\<close> is the text \<^verbatim>\<open>inet_ntop\<close> makes of the sender (\<open>None\<close> if it fails),
  \<open>dg_grow_ok\<close> the \<^verbatim>\<open>realloc\<close> of the result array (asked only when it is full),
  \<open>dg_res_ok\<close>, \<open>dg_addr_ok\<close> and \<open>dg_data_ok\<close> the three \<^verbatim>\<open>malloc\<close>s of the result, and
  \<open>dg_actor\<close> what a registration of the sender would meet. An empty payload is a
  \<^verbatim>\<open>recvfrom\<close> that returns 0; the end of the list is the \<^verbatim>\<open>recvfrom\<close> that would block
  or fails.
\<close>

record recv_item =
  dg_payload :: "byte list"
  dg_ip :: "string option"
  dg_port :: u16
  dg_grow_ok :: bool
  dg_res_ok :: bool
  dg_addr_ok :: bool
  dg_data_ok :: bool
  dg_actor :: actor_env

text \<open>
  The auto-discovery step of \<^verbatim>\<open>ra_gekkonet_udp_receive\<close> for the sender \<open>addrbuf\<close>; the
  result of the registration is only logged.
\<close>

definition auto_add_remote :: "actor_env \<Rightarrow> string \<Rightarrow> 'h sys \<Rightarrow> 'h sys" where
  "auto_add_remote e addrbuf s =
     (case g_udp_adapter s of
        None \<Rightarrow> s
      | Some ad \<Rightarrow>
          if \<not> owner ad then s
          else if \<not> ra_gekkonet_addr_known (ctx s) (Some addrbuf)
                  \<and> remote_actor_count (ctx s) + local_actor_count (ctx s)
                      < uint (num_players (cfg (ctx s)))
          then snd (ra_gekkonet_add_actor e RemotePlayer (Some addrbuf) s)
          else s)"

text \<open>
  One turn of the loop of \<^verbatim>\<open>ra_gekkonet_udp_receive\<close> that finds the datagram \<open>d\<close> on the
  socket, with \<open>count\<close> results stored so far: the result to store, or \<open>None\<close> where the C
  code leaves the loop. The receive buffer has 2048 bytes.
\<close>

definition udp_receive_step ::
  "int \<Rightarrow> recv_item \<Rightarrow> nat \<Rightarrow> 'h sys \<Rightarrow> GekkoNetResult option \<times> 'h sys" where
  "udp_receive_step fd d count s =
     (let s0 = emit (Sys_recvfrom fd) s;
          recvd = take 2048 (dg_payload d)
      in
      if recvd = [] then (None, s0)
      else if count \<ge> g_udp_results_cap s0 \<and> \<not> dg_grow_ok d then (None, s0)
      else
        let s1 = (if count \<ge> g_udp_results_cap s0
                  then s0\<lparr>g_udp_results_cap :=
                             (if g_udp_results_cap s0 \<noteq> 0 then g_udp_results_cap s0 * 2 else 8)\<rparr>
                  else s0)
        in
        (case dg_ip d of
           None \<Rightarrow> (None, s1)
         | Some ip \<Rightarrow>
             if \<not> dg_res_ok d \<or> \<not> dg_addr_ok d \<or> \<not> dg_data_ok d then (None, s1)
             else
               let addrbuf = sender_text ip (dg_port d);
                   s2 = auto_add_remote (dg_actor d) addrbuf s1
               in (Some \<lparr>res_addr = addrbuf, res_data = recvd\<rparr>, s2)))"

text \<open>
  The loop: \<open>acc\<close> holds the results stored so far. When nothing is left on the socket,
  \<^verbatim>\<open>recvfrom\<close> is called once more and ends the loop.
\<close>

fun udp_receive_loop ::
  "int \<Rightarrow> recv_item list \<Rightarrow> GekkoNetResult list \<Rightarrow> 'h sys \<Rightarrow> GekkoNetResult list \<times> 'h sys" where
  "udp_receive_loop fd [] acc s = (acc, emit (Sys_recvfrom fd) s)"
| "udp_receive_loop fd (d # ds) acc s =
     (case udp_receive_step fd d (length acc) s of
        (None, s') \<Rightarrow> (acc, s')
      | (Some r, s') \<Rightarrow> udp_receive_loop fd ds (acc @ [r]) s')"

definition ra_gekkonet_udp_receive :: "recv_item list \<Rightarrow> 'h sys \<Rightarrow> GekkoNetResult list \<times> 'h sys" where
  "ra_gekkonet_udp_receive pending s =
     (case g_udp_adapter s of
        None \<Rightarrow> ([], s)
      | Some ad \<Rightarrow> udp_receive_loop (sockfd ad) pending [] s)"

subsection \<open>The tick\<close>

text \<open>
  Modelled from the spec: \<^verbatim>\<open>gekko_network_poll\<close> belongs to the engine and is not part of
  this file. Section 4.3 has the engine drain the adapter in the network poll, so the
  model lets it call the adapter's \<^verbatim>\<open>receive_data\<close>, which is \<^verbatim>\<open>ra_gekkonet_udp_receive\<close>, once,
  on the datagrams \<open>pending\<close> at that moment. What the engine sends goes through
  \<^verbatim>\<open>ra_gekkonet_udp_send\<close>, which does not touch the context, and is left out of the tick.
\<close>

definition gekko_network_poll :: "nat \<Rightarrow> recv_item list \<Rightarrow> 'h sys \<Rightarrow> 'h sys" where
  "gekko_network_poll h pending s =
     snd (ra_gekkonet_udp_receive pending (emit (Gekko_network_poll h) s))"

record tick_env =
  pending :: "recv_item list"
  session_events :: "GekkoSessionEvent option list option"
  game_events :: "GekkoGameEvent option list option"

definition ra_gekkonet_update :: "tick_env \<Rightarrow> 'h sys \<Rightarrow> 'h sys" where
  "ra_gekkonet_update e s =
     (case session (ctx s) of
        None \<Rightarrow> s
      | Some h \<Rightarrow>
          if \<not> active (ctx s) then s
          else
            let s1 = gekko_network_poll h (pending e) s;
                s2 = ra_gekkonet_process_session_events (session_events e) s1
            in ra_gekkonet_process_game_events (game_events e) s2)"

subsection \<open>Observing a run\<close>

text \<open>
  The state before any call: the zeroed statics of the file and a zeroed context.
  \<open>new_calls s s'\<close> are the calls made on the way from \<open>s\<close> to \<open>s'\<close>.
\<close>

definition sys_zero :: "'h \<Rightarrow> 'h sys" where
  "sys_zero h =
     \<lparr>ctx = ctx_zero, g_udp_adapter = None, g_udp_results_cap = 0, host = h, trace = [], ub = False\<rparr>"

definition new_calls :: "'h sys \<Rightarrow> 'h sys \<Rightarrow> (call \<times> byte list option) list" where
  "new_calls s s' = drop (length (trace s)) (trace s')"

text \<open>
  \<open>quiet s s'\<close>: on the way from \<open>s\<close> to \<open>s'\<close> the trace only grew, and the current input was
  the same throughout: at every call made, and at the end.
\<close>

definition quiet :: "'h sys \<Rightarrow> 'h sys \<Rightarrow> bool" where
  "quiet s s' \<longleftrightarrow>
     trace s' = trace s @ new_calls s s'
     \<and> list_all (\<lambda>k. snd k = ra_gekkonet_get_current_input (ctx s)) (new_calls s s')
     \<and> ra_gekkonet_get_current_input (ctx s') = ra_gekkonet_get_current_input (ctx s)"

fun is_advance :: "GekkoGameEvent option \<Rightarrow> bool" where
  "is_advance (Some (AdvanceEvent ev)) = True"
| "is_advance ev = False"

text \<open>
  Where the loop of \<^verbatim>\<open>ra_gekkonet_udp_receive\<close> stands when it comes to the datagram at
  position \<open>i\<close> of those waiting: the number of results stored by then and the state, or
  \<open>None\<close> if the loop ends before it gets there. \<open>receive_call\<close> holds of the calls the
  receive path makes: \<^verbatim>\<open>recvfrom\<close>, \<^verbatim>\<open>gekko_add_actor\<close> and \<^verbatim>\<open>free\<close>.
\<close>

fun turn_at ::
  "int \<Rightarrow> recv_item list \<Rightarrow> nat \<Rightarrow> GekkoNetResult list \<Rightarrow> 'h sys \<Rightarrow> (nat \<times> 'h sys) option" where
  "turn_at fd [] i acc s = None"
| "turn_at fd (d # ds) 0 acc s = Some (length acc, s)"
| "turn_at fd (d # ds) (Suc i) acc s =
     (case udp_receive_step fd d (length acc) s of
        (None, s') \<Rightarrow> None
      | (Some r, s') \<Rightarrow> turn_at fd ds i (acc @ [r]) s')"

fun receive_call :: "call \<Rightarrow> bool" where
  "receive_call (Sys_recvfrom fd) = True"
| "receive_call (Gekko_add_actor h t a) = True"
| "receive_call (Libc_free b) = True"
| "receive_call k = False"

subsection \<open>Counting actors\<close>

text \<open>
  The number the capacity test of \<^verbatim>\<open>ra_gekkonet_add_actor\<close> looks at, the bound it compares
  it with, and a sequence of registrations, each with what it meets.
\<close>

definition actor_total :: "'h ra_gekkonet_ctx \<Rightarrow> int" where
  "actor_total c = remote_actor_count c + local_actor_count c"

definition within_capacity :: "'h ra_gekkonet_ctx \<Rightarrow> bool" where
  "within_capacity c \<longleftrightarrow> actor_total c \<le> uint (num_players (cfg c))"

fun add_actors :: "(actor_env \<times> GekkoPlayerType \<times> string option) list \<Rightarrow> 'h sys \<Rightarrow> 'h sys" where
  "add_actors [] s = s"
| "add_actors ((e, type, addr_string) # calls) s =
     add_actors calls (snd (ra_gekkonet_add_actor e type addr_string s))"

definition accept :: "int \<Rightarrow> actor_env" where
  "accept h = \<lparr>copy_ok = True, handle = h, remember = \<lparr>realloc_ok = True, malloc_ok = True\<rparr>\<rparr>"

subsection \<open>A session to run things on\<close>

text \<open>
  Two players, inputs of four bytes, states of 256 bytes, port 7000; every call of
  \<^verbatim>\<open>ra_gekkonet_init\<close> succeeds, and the host callbacks report success. \<open>demo_sys\<close> is the
  state after that \<^verbatim>\<open>ra_gekkonet_init\<close>; \<open>demo_stale\<close> is the same session with the bytes of
  an earlier frame in its input buffer.
\<close>

definition demo_params :: ra_gekkonet_params where
  "demo_params =
     \<lparr>p_num_players = 2, p_max_spectators = 0, p_input_prediction_window = 8,
      p_spectator_delay = 0, p_input_size = 4, p_state_size = 256, p_port = 7000,
      p_limited_saving = False, p_post_sync_joining = False, p_desync_detection = False\<rparr>"

definition demo_env :: init_env where
  "demo_env =
     \<lparr>gekko_create_result = Some 1, input_calloc_ok = True,
      adapter_create = \<lparr>adapter_calloc_ok = True, socket_fd = 3, nonblock_ok = True, bind_ok = True\<rparr>\<rparr>"

definition demo_save :: "unit save_state_cb" where
  "demo_save capacity h = (True, h)"

definition demo_load :: "unit load_state_cb" where
  "demo_load bytes len h = (True, h)"

definition demo_sys :: "unit sys" where
  "demo_sys = snd (ra_gekkonet_init demo_env (Some demo_params) (Some demo_save) (Some demo_load) (sys_zero ()))"

definition demo_stale :: "unit sys" where
  "demo_stale = demo_sys\<lparr>ctx := (ctx demo_sys)\<lparr>current_input_buf := Some [9, 9, 9, 9]\<rparr>\<rparr>"

text \<open>
  The same \<^verbatim>\<open>ra_gekkonet_init\<close> where only \<^verbatim>\<open>bind\<close> fails (the port is taken), and a tick in which
  nothing arrives and the engine has no events.
\<close>

definition no_bind_env :: init_env where
  "no_bind_env =
     \<lparr>gekko_create_result = Some 1, input_calloc_ok = True,
      adapter_create = \<lparr>adapter_calloc_ok = True, socket_fd = 3, nonblock_ok = True, bind_ok = False\<rparr>\<rparr>"

definition quiet_tick :: tick_env where
  "quiet_tick = \<lparr>pending = [], session_events = None, game_events = None\<rparr>"

text \<open>
  A run-frame callback, the session with it installed, and a tick in which the engine
  asks to advance one frame with the input \<open>1, 2, 3, 4\<close>.
\<close>

definition demo_run :: "unit run_frame_cb" where
  "demo_run input h = h"

definition demo_running :: "unit sys" where
  "demo_running = ra_gekkonet_set_run_frame_cb (Some demo_run) demo_sys"

definition demo_advance :: Advance where
  "demo_advance = \<lparr>adv_frame = 1, adv_input_len = 4, adv_inputs = Some [1, 2, 3, 4],
                    adv_rolling_back = False\<rparr>"

definition advance_tick :: tick_env where
  "advance_tick = \<lparr>pending = [], session_events = None,
                     game_events = Some [Some (AdvanceEvent demo_advance)]\<rparr>"

text \<open>
  A datagram of two bytes from \<^verbatim>\<open>10.0.0.2\<close>, port 7000, that meets no failure, and a tick in
  which it is the one datagram waiting.
\<close>

definition demo_datagram :: recv_item where
  "demo_datagram =
     \<lparr>dg_payload = [5, 6], dg_ip = Some ''10.0.0.2'', dg_port = 7000, dg_grow_ok = True,
      dg_res_ok = True, dg_addr_ok = True, dg_data_ok = True, dg_actor = accept 0\<rparr>"

definition discovery_tick :: tick_env where
  "discovery_tick = \<lparr>pending = [demo_datagram], session_events = None, game_events = None\<rparr>"

text \<open>
  The same sender with an empty datagram, for which \<^verbatim>\<open>recvfrom\<close> returns 0, and a tick in
  which it waits in front of the datagram of two bytes.
\<close>

definition empty_datagram :: recv_item where
  "empty_datagram = demo_datagram\<lparr>dg_payload := []\<rparr>"

definition empty_first_tick :: tick_env where
  "empty_first_tick =
     \<lparr>pending = [empty_datagram, demo_datagram], session_events = None, game_events = None\<rparr>"

section \<open>Properties\<close>

subsection \<open>Basic facts\<close>

lemma trace_emit [simp]: "trace (emit k s) = trace s @ [(k, ra_gekkonet_get_current_input (ctx s))]"
  by (simp add: emit_def)

lemma ctx_emit [simp]: "ctx (emit k s) = ctx s"
  by (simp add: emit_def)

lemma host_emit [simp]: "host (emit k s) = host s"
  by (simp add: emit_def)

lemma g_udp_adapter_emit [simp]: "g_udp_adapter (emit k s) = g_udp_adapter s"
  by (simp add: emit_def)

lemma g_udp_results_cap_emit [simp]: "g_udp_results_cap (emit k s) = g_udp_results_cap s"
  by (simp add: emit_def)

lemma ub_emit [simp]: "ub (emit k s) = ub s"
  by (simp add: emit_def)

lemma new_calls_same [simp]: "new_calls s s = []"
  by (simp add: new_calls_def)

lemma demo_init:
  "ra_gekkonet_init demo_env (Some demo_params) (Some demo_save) (Some demo_load) (sys_zero ())
     = (True, demo_sys)"
  by (simp add: demo_sys_def ra_gekkonet_init_def demo_env_def Let_def
      ra_gekkonet_udp_adapter_create_def)

lemma replicate_4: "replicate 4 x = [x, x, x, x]"
  by (simp add: numeral_eq_Suc)

lemma demo_sys_fields:
  "session (ctx demo_sys) = Some 1"
  "active (ctx demo_sys)"
  "\<not> ready_for_state (ctx demo_sys)"
  "save_cb (ctx demo_sys) = Some demo_save"
  "load_cb (ctx demo_sys) = Some demo_load"
  "run_frame_cb (ctx demo_sys) = None"
  "state_size (ctx demo_sys) = 256"
  "input_size (ctx demo_sys) = 4"
  "current_input_buf (ctx demo_sys) = Some [0, 0, 0, 0]"
  "current_input (ctx demo_sys)"
  "num_players (cfg (ctx demo_sys)) = 2"
  "local_actor_count (ctx demo_sys) = 0"
  "remote_actor_count (ctx demo_sys) = 0"
  "g_udp_adapter demo_sys = Some \<lparr>sockfd = 3, owner = True\<rparr>"
  "host demo_sys = ()"
  by (simp_all add: demo_sys_def ra_gekkonet_init_def demo_env_def demo_params_def Let_def
      ra_gekkonet_udp_adapter_create_def ctx_zero_def sys_zero_def replicate_4)

lemma demo_sys_more:
  "session_event_cb (ctx demo_sys) = None"
  "g_udp_results_cap demo_sys = 0"
  "\<not> ub demo_sys"
  by (simp_all add: demo_sys_def ra_gekkonet_init_def demo_env_def demo_params_def Let_def
      ra_gekkonet_udp_adapter_create_def ctx_zero_def sys_zero_def)

subsection \<open>The address registry\<close>

lemma known_noop: "ra_gekkonet_addr_known c (Some a) \<Longrightarrow> ra_gekkonet_remember_addr e c (Some a) = c"
  by (simp add: ra_gekkonet_remember_addr_def)

lemma known_registry: "ra_gekkonet_addr_known c (Some a) \<longleftrightarrow> Some a \<in> set (registry c)"
  by (simp add: ra_gekkonet_addr_known_def registry_def)

lemma registry_remember:
  assumes "addrs_wf c"
  shows "registry (ra_gekkonet_remember_addr e c (Some a)) =
     (if ra_gekkonet_addr_known c (Some a) then registry c
      else if remote_addrs_count c \<ge> remote_addrs_cap c \<and> \<not> realloc_ok e then registry c
      else if \<not> malloc_ok e then registry c
      else registry c @ [Some a])"
  using assms
  by (auto simp: ra_gekkonet_remember_addr_def registry_def addrs_wf_def Let_def take_Suc_conv_app_nth nth_append)

lemma addrs_wf_remember:
  "addrs_wf c \<Longrightarrow> addrs_wf (ra_gekkonet_remember_addr e c addr)"
  by (cases addr) (auto simp: ra_gekkonet_remember_addr_def addrs_wf_def Let_def)

lemma registry_ok_remember:
  "registry_ok c \<Longrightarrow> registry_ok (ra_gekkonet_remember_addr e c addr)"
proof (cases addr)
  case None
  assume "registry_ok c"
  with None show ?thesis by (simp add: ra_gekkonet_remember_addr_def)
next
  case (Some a)
  assume ok: "registry_ok c"
  then have wf: "addrs_wf c" and d: "distinct (registry c)"
    by (simp_all add: registry_ok_def)
  have "distinct (registry (ra_gekkonet_remember_addr e c (Some a)))"
    using d by (simp add: registry_remember [OF wf] known_registry)
  with addrs_wf_remember [OF wf] Some show ?thesis
    by (simp add: registry_ok_def)
qed

lemma count_distinct_le1: "distinct xs \<Longrightarrow> count_list xs x \<le> 1"
  by (induction xs) auto

lemma count_distinct_in: "distinct xs \<Longrightarrow> x \<in> set xs \<Longrightarrow> count_list xs x = 1"
  by (induction xs) auto

lemma registry_ok_zero: "registry_ok ctx_zero"
  by (simp add: registry_ok_def addrs_wf_def registry_def ctx_zero_def)

lemma registry_ok_init:
  assumes "ra_gekkonet_init e params save load s = (True, s')"
  shows "registry_ok (ctx s')"
  using assms
  by (auto simp: ra_gekkonet_init_def Let_def ctx_zero_def ra_gekkonet_udp_adapter_create_def
      registry_ok_def addrs_wf_def registry_def split: option.splits if_splits prod.splits)

text \<open>
  Claim C9. Remembering an address is idempotent. Take a registry as the C code keeps
  it (the count within the capacity, no address twice) and remember the same address
  twice, whatever the allocator answers: the registry holds the address at most once;
  if the allocations of the first call succeed, the second call changes nothing and the
  address is there exactly once; and remembering an address that is already known
  changes nothing at all.
\<close>

theorem remember_addr_idempotent:
  assumes ok: "registry_ok c"
  shows "count_list (registry (ra_gekkonet_remember_addr e2 (ra_gekkonet_remember_addr e1 c (Some a)) (Some a))) (Some a) \<le> 1
       \<and> (realloc_ok e1 \<and> malloc_ok e1 \<longrightarrow>
            ra_gekkonet_remember_addr e2 (ra_gekkonet_remember_addr e1 c (Some a)) (Some a)
              = ra_gekkonet_remember_addr e1 c (Some a)
          \<and> count_list (registry (ra_gekkonet_remember_addr e2 (ra_gekkonet_remember_addr e1 c (Some a)) (Some a))) (Some a) = 1)
       \<and> (ra_gekkonet_addr_known c (Some a) \<longrightarrow>
            ra_gekkonet_remember_addr e1 c (Some a) = c \<and> count_list (registry c) (Some a) = 1)"
proof -
  define c1 where "c1 = ra_gekkonet_remember_addr e1 c (Some a)"
  define c2 where "c2 = ra_gekkonet_remember_addr e2 c1 (Some a)"
  from ok have wf: "addrs_wf c" and d: "distinct (registry c)"
    by (simp_all add: registry_ok_def)
  have ok1: "registry_ok c1"
    unfolding c1_def by (rule registry_ok_remember [OF ok])
  have ok2: "registry_ok c2"
    unfolding c2_def by (rule registry_ok_remember [OF ok1])
  have le: "count_list (registry c2) (Some a) \<le> 1"
    using ok2 count_distinct_le1 [of "registry c2" "Some a"] by (simp add: registry_ok_def)
  have succ: "c2 = c1 \<and> count_list (registry c2) (Some a) = 1"
    if "realloc_ok e1" "malloc_ok e1"
  proof -
    have "Some a \<in> set (registry c1)"
      unfolding c1_def using that by (simp add: registry_remember [OF wf] known_registry)
    then have k1: "ra_gekkonet_addr_known c1 (Some a)"
      by (simp add: known_registry)
    then have "c2 = c1"
      unfolding c2_def by (rule known_noop)
    moreover have "count_list (registry c1) (Some a) = 1"
      using ok1 \<open>Some a \<in> set (registry c1)\<close> count_distinct_in [of "registry c1" "Some a"]
      by (simp add: registry_ok_def)
    ultimately show ?thesis by simp
  qed
  have kn: "c1 = c \<and> count_list (registry c) (Some a) = 1"
    if k: "ra_gekkonet_addr_known c (Some a)"
  proof -
    have e1: "c1 = c" unfolding c1_def using k by (rule known_noop)
    from k d count_distinct_in [of "registry c" "Some a"] show ?thesis
      by (simp add: e1 known_registry)
  qed
  from le succ kn show ?thesis unfolding c2_def c1_def by blast
qed

theorem remember_addr_idempotent_witness:
  "registry_ok ((ctx_zero :: unit ra_gekkonet_ctx)\<lparr>remote_addrs := [Some ''10.0.0.2:7000'', None, None, None],
        remote_addrs_count := 1, remote_addrs_cap := 4\<rparr>)
   \<and> ra_gekkonet_addr_known ((ctx_zero :: unit ra_gekkonet_ctx)\<lparr>remote_addrs := [Some ''10.0.0.2:7000'', None, None, None],
        remote_addrs_count := 1, remote_addrs_cap := 4\<rparr>) (Some ''10.0.0.2:7000'')
   \<and> count_list (registry (ra_gekkonet_remember_addr \<lparr>realloc_ok = True, malloc_ok = True\<rparr>
        (ra_gekkonet_remember_addr \<lparr>realloc_ok = True, malloc_ok = True\<rparr>
          ((ctx_zero :: unit ra_gekkonet_ctx)\<lparr>remote_addrs := [Some ''10.0.0.2:7000'', None, None, None],
             remote_addrs_count := 1, remote_addrs_cap := 4\<rparr>) (Some ''10.0.0.2:7000''))
        (Some ''10.0.0.2:7000''))) (Some ''10.0.0.2:7000'') = 1"
proof -
  let ?c = "(ctx_zero :: unit ra_gekkonet_ctx)\<lparr>remote_addrs := [Some ''10.0.0.2:7000'', None, None, None],
        remote_addrs_count := 1, remote_addrs_cap := 4\<rparr>"
  have ok: "registry_ok ?c"
    by (simp add: registry_ok_def addrs_wf_def registry_def)
  have k: "ra_gekkonet_addr_known ?c (Some ''10.0.0.2:7000'')"
    by (simp add: ra_gekkonet_addr_known_def)
  from remember_addr_idempotent [OF ok, of "\<lparr>realloc_ok = True, malloc_ok = True\<rparr>"
      "\<lparr>realloc_ok = True, malloc_ok = True\<rparr>" "''10.0.0.2:7000''"] ok k
  show ?thesis by simp
qed

subsection \<open>Save events\<close>

lemma handle_save_trace:
  "trace (ra_gekkonet_handle_save ev s) =
     (case save_cb (ctx s) of
        None \<Rightarrow> trace s
      | Some cb \<Rightarrow>
          (case save_state_len ev of
             None \<Rightarrow> trace s
           | Some requested \<Rightarrow>
               if \<not> save_state ev then trace s
               else trace s @ [(Save_cb (min requested (state_size (ctx s))),
                                ra_gekkonet_get_current_input (ctx s))]))"
  by (auto simp: ra_gekkonet_handle_save_def Let_def min_def split: option.splits prod.splits)

lemma handle_save_eq:
  assumes "save_cb (ctx s) = Some cb" and "save_state ev" and "save_state_len ev = Some requested"
  shows "ra_gekkonet_handle_save ev s =
           (let len = min requested (state_size (ctx s));
                s1 = emit (Save_cb len) s;
                r = cb len (host s)
            in if fst r then s1\<lparr>host := snd r, ctx := (ctx s1)\<lparr>ready_for_state := True\<rparr>\<rparr>
               else s1\<lparr>host := snd r\<rparr>)"
proof (cases "state_size (ctx s) < requested")
  case True
  then have "min requested (state_size (ctx s)) = state_size (ctx s)"
    by simp
  with True assms show ?thesis
    by (simp add: ra_gekkonet_handle_save_def Let_def case_prod_beta)
next
  case False
  then have "min requested (state_size (ctx s)) = requested"
    by simp
  with False assms show ?thesis
    by (simp add: ra_gekkonet_handle_save_def Let_def case_prod_beta)
qed

lemma handle_save_success:
  assumes "save_cb (ctx s) = Some cb" and "save_state ev" and "save_state_len ev = Some requested"
      and "fst (cb (min requested (state_size (ctx s))) (host s))"
  shows "ready_for_state (ctx (ra_gekkonet_handle_save ev s))"
  using assms(4) by (simp add: handle_save_eq [OF assms(1-3)] Let_def)

lemma handle_save_failure:
  assumes "save_cb (ctx s) = Some cb" and "save_state ev" and "save_state_len ev = Some requested"
      and "\<not> fst (cb (min requested (state_size (ctx s))) (host s))"
  shows "ready_for_state (ctx (ra_gekkonet_handle_save ev s)) = ready_for_state (ctx s)"
  using assms(4) by (simp add: handle_save_eq [OF assms(1-3)] Let_def)

text \<open>
  Claim C1. A Save event with a destination pointer and a length pointer never hands the
  host a capacity above \<open>state_size\<close>. With \<open>capacity\<close> the smaller of the requested length and
  \<open>state_size\<close>: every call the handler makes is a call of the save callback whose capacity
  is at most \<open>state_size\<close> (and at most what the engine asked for); when a save callback
  \<open>cb\<close> is set it is called exactly once, the host afterwards is the host that
  \<open>cb capacity\<close> returns on the host before, and the session is ready for state afterwards
  iff that very call succeeded or the session was ready before; with no save callback
  the handler does nothing.
\<close>

theorem handle_save_clamps_capacity:
  assumes "save_state ev" and "save_state_len ev = Some requested"
  shows "(\<forall>k \<in> set (new_calls s (ra_gekkonet_handle_save ev s)).
            \<exists>capacity. fst k = Save_cb capacity \<and> capacity \<le> state_size (ctx s) \<and> capacity \<le> requested)
       \<and> (save_cb (ctx s) \<noteq> None \<longrightarrow>
            map fst (new_calls s (ra_gekkonet_handle_save ev s))
              = [Save_cb (min requested (state_size (ctx s)))])
       \<and> (\<forall>cb. save_cb (ctx s) = Some cb \<longrightarrow>
            host (ra_gekkonet_handle_save ev s)
              = snd (cb (min requested (state_size (ctx s))) (host s))
          \<and> ready_for_state (ctx (ra_gekkonet_handle_save ev s))
              = (fst (cb (min requested (state_size (ctx s))) (host s)) \<or> ready_for_state (ctx s))
          \<and> min requested (state_size (ctx s)) \<le> state_size (ctx s))
       \<and> (save_cb (ctx s) = None \<longrightarrow> ra_gekkonet_handle_save ev s = s)"
proof -
  have calls: "(\<forall>k \<in> set (new_calls s (ra_gekkonet_handle_save ev s)).
            \<exists>capacity. fst k = Save_cb capacity \<and> capacity \<le> state_size (ctx s) \<and> capacity \<le> requested)
       \<and> (save_cb (ctx s) \<noteq> None \<longrightarrow>
            map fst (new_calls s (ra_gekkonet_handle_save ev s))
              = [Save_cb (min requested (state_size (ctx s)))])"
    using assms by (simp add: new_calls_def handle_save_trace split: option.splits)
  have arg: "host (ra_gekkonet_handle_save ev s)
              = snd (cb (min requested (state_size (ctx s))) (host s))
          \<and> ready_for_state (ctx (ra_gekkonet_handle_save ev s))
              = (fst (cb (min requested (state_size (ctx s))) (host s)) \<or> ready_for_state (ctx s))"
    if "save_cb (ctx s) = Some cb" for cb
    by (simp add: handle_save_eq [OF that assms] Let_def)
  have none: "save_cb (ctx s) = None \<longrightarrow> ra_gekkonet_handle_save ev s = s"
    by (simp add: ra_gekkonet_handle_save_def)
  from calls arg none show ?thesis
    by simp
qed

text \<open>
  A host that writes down every capacity it is handed: asked for 1024 bytes with a
  \<open>state_size\<close> of 256, it has written down 256 and nothing else.
\<close>

theorem handle_save_clamps_capacity_witness:
  "save_state \<lparr>save_frame = 3, save_state = True, save_state_len = Some 1024, save_checksum = Some 0\<rparr>
   \<and> save_state_len \<lparr>save_frame = 3, save_state = True, save_state_len = Some 1024, save_checksum = Some 0\<rparr>
       = Some 1024
   \<and> map fst (new_calls
        ((sys_zero [])\<lparr>ctx := ctx_zero\<lparr>save_cb := Some (\<lambda>capacity h. (True, h @ [capacity])),
                                      state_size := 256\<rparr>\<rparr>)
        (ra_gekkonet_handle_save
           \<lparr>save_frame = 3, save_state = True, save_state_len = Some 1024, save_checksum = Some 0\<rparr>
           ((sys_zero [])\<lparr>ctx := ctx_zero\<lparr>save_cb := Some (\<lambda>capacity h. (True, h @ [capacity])),
                                         state_size := 256\<rparr>\<rparr>)))
       = [Save_cb 256]
   \<and> host (ra_gekkonet_handle_save
        \<lparr>save_frame = 3, save_state = True, save_state_len = Some 1024, save_checksum = Some 0\<rparr>
        ((sys_zero [])\<lparr>ctx := ctx_zero\<lparr>save_cb := Some (\<lambda>capacity h. (True, h @ [capacity])),
                                      state_size := 256\<rparr>\<rparr>))
       = [256]
   \<and> ready_for_state (ctx (ra_gekkonet_handle_save
        \<lparr>save_frame = 3, save_state = True, save_state_len = Some 1024, save_checksum = Some 0\<rparr>
        ((sys_zero [])\<lparr>ctx := ctx_zero\<lparr>save_cb := Some (\<lambda>capacity h. (True, h @ [capacity])),
                                      state_size := 256\<rparr>\<rparr>)))"
  using handle_save_clamps_capacity
    [of "\<lparr>save_frame = 3, save_state = True, save_state_len = Some 1024, save_checksum = Some 0\<rparr>" 1024
        "(sys_zero [])\<lparr>ctx := ctx_zero\<lparr>save_cb := Some (\<lambda>capacity h. (True, h @ [capacity])),
                                      state_size := 256\<rparr>\<rparr>"]
  by (simp add: sys_zero_def)

subsection \<open>Advance events\<close>

lemma length_memset: "memset dst v n = Some z \<Longrightarrow> length z = length dst"
  by (auto simp: memset_def split: if_splits)

lemma length_memcpy: "memcpy dst src n = Some z \<Longrightarrow> length z = length dst"
  by (auto simp: memcpy_def split: if_splits)

lemma advance_short:
  assumes "length buf = n" and "l \<le> length payload" and "l < n"
  shows "(case memset buf 0 n of None \<Rightarrow> None | Some zeroed \<Rightarrow> memcpy zeroed payload l)
           = Some (take l payload @ replicate (n - l) 0)"
  using assms by (simp add: memset_def memcpy_def)

lemma advance_full:
  assumes "length buf = n" and "n \<le> length payload"
  shows "memcpy buf payload n = Some (take n payload)"
  using assms by (simp add: memcpy_def)

lemma buffer_after_init:
  assumes "ra_gekkonet_init e params save load s = (True, s')"
  shows "\<exists>buf. current_input_buf (ctx s') = Some buf \<and> length buf = unat (input_size (ctx s'))"
  using assms
  by (auto simp: ra_gekkonet_init_def Let_def ctx_zero_def ra_gekkonet_udp_adapter_create_def
      split: option.splits if_splits prod.splits)

lemma buffer_after_advance:
  assumes "current_input_buf (ctx s) = Some buf"
  shows "\<exists>buf'. current_input_buf (ctx (ra_gekkonet_handle_advance ev s)) = Some buf'
           \<and> length buf' = length buf"
    and "input_size (ctx (ra_gekkonet_handle_advance ev s)) = input_size (ctx s)"
  using assms
  by (auto simp: ra_gekkonet_handle_advance_def Let_def
      dest!: length_memset length_memcpy split: option.splits if_splits)

text \<open>
  Claim C2. An Advance event with a payload behind its input pointer, handled by a session
  whose input buffer has its \<open>input_size\<close> bytes, where the payload holds the bytes the
  handler reads (\<open>L\<close> of them if \<open>L < input_size\<close>, else \<open>input_size\<close>): if \<open>L < input_size\<close>
  the buffer afterwards is the first \<open>L\<close> bytes of the payload followed by
  \<open>input_size - L\<close> zero bytes, otherwise it is the first \<open>input_size\<close> bytes of the payload
  and nothing more; no byte outside the buffer or the payload is touched; and that
  buffer is what the session publishes as the current input.
\<close>

theorem handle_advance_copies_input:
  assumes buf: "current_input_buf (ctx s) = Some buf"
      and len: "length buf = unat (input_size (ctx s))"
      and inp: "adv_inputs ev = Some payload"
      and pay: "min (unat (adv_input_len ev)) (unat (input_size (ctx s))) \<le> length payload"
  shows "current_input_buf (ctx (ra_gekkonet_handle_advance ev s)) =
           Some (if adv_input_len ev < input_size (ctx s)
                 then take (unat (adv_input_len ev)) payload
                        @ replicate (unat (input_size (ctx s)) - unat (adv_input_len ev)) 0
                 else take (unat (input_size (ctx s))) payload)
       \<and> ra_gekkonet_get_current_input (ctx (ra_gekkonet_handle_advance ev s))
           = current_input_buf (ctx (ra_gekkonet_handle_advance ev s))
       \<and> ub (ra_gekkonet_handle_advance ev s) = ub s"
proof (cases "adv_input_len ev < input_size (ctx s)")
  case True
  then have lt: "unat (adv_input_len ev) < unat (input_size (ctx s))"
    by (simp add: word_less_nat_alt)
  with pay have "unat (adv_input_len ev) \<le> length payload"
    by simp
  from advance_short [OF len this lt] True buf inp show ?thesis
    by (simp add: ra_gekkonet_handle_advance_def Let_def ra_gekkonet_get_current_input_def
        split: option.splits)
next
  case False
  then have "unat (input_size (ctx s)) \<le> unat (adv_input_len ev)"
    by (simp add: word_less_nat_alt)
  with pay have "unat (input_size (ctx s)) \<le> length payload"
    by simp
  from advance_full [OF len this] False buf inp show ?thesis
    by (simp add: ra_gekkonet_handle_advance_def Let_def ra_gekkonet_get_current_input_def
        split: option.splits)
qed

text \<open>
  What the flag is for: with four bytes of buffer and an \<open>input_size\<close> of six, the copy of
  six bytes would run past the buffer, and the handler raises \<open>ub\<close>.
\<close>

lemma handle_advance_overrun:
  "ub (ra_gekkonet_handle_advance
         \<lparr>adv_frame = 1, adv_input_len = 6, adv_inputs = Some [1, 2, 3, 4, 5, 6], adv_rolling_back = False\<rparr>
         (demo_stale\<lparr>ctx := (ctx demo_stale)\<lparr>input_size := 6\<rparr>\<rparr>))"
  by (simp add: ra_gekkonet_handle_advance_def Let_def memcpy_def demo_stale_def demo_sys_fields
      split: option.splits)

lemma replicate_2: "replicate 2 x = [x, x]"
  by (simp add: numeral_eq_Suc)

theorem handle_advance_copies_input_witness:
  "current_input_buf (ctx demo_stale) = Some [9, 9, 9, 9]
   \<and> length [9, 9, 9, 9 :: byte] = unat (input_size (ctx demo_stale))
   \<and> adv_inputs \<lparr>adv_frame = 1, adv_input_len = 2, adv_inputs = Some [1, 2], adv_rolling_back = False\<rparr>
       = Some [1, 2]
   \<and> current_input_buf (ctx (ra_gekkonet_handle_advance
        \<lparr>adv_frame = 1, adv_input_len = 2, adv_inputs = Some [1, 2], adv_rolling_back = False\<rparr> demo_stale))
       = Some [1, 2, 0, 0]
   \<and> current_input_buf (ctx (ra_gekkonet_handle_advance
        \<lparr>adv_frame = 1, adv_input_len = 6, adv_inputs = Some [1, 2, 3, 4, 5, 6], adv_rolling_back = False\<rparr> demo_stale))
       = Some [1, 2, 3, 4]
   \<and> \<not> ub (ra_gekkonet_handle_advance
        \<lparr>adv_frame = 1, adv_input_len = 6, adv_inputs = Some [1, 2, 3, 4, 5, 6], adv_rolling_back = False\<rparr> demo_stale)"
  using handle_advance_copies_input [of demo_stale "[9, 9, 9, 9]"
      "\<lparr>adv_frame = 1, adv_input_len = 2, adv_inputs = Some [1, 2], adv_rolling_back = False\<rparr>" "[1, 2]"]
    handle_advance_copies_input [of demo_stale "[9, 9, 9, 9]"
      "\<lparr>adv_frame = 1, adv_input_len = 6, adv_inputs = Some [1, 2, 3, 4, 5, 6], adv_rolling_back = False\<rparr>"
      "[1, 2, 3, 4, 5, 6]"]
  by (simp add: demo_stale_def demo_sys_fields demo_sys_more replicate_2)

subsection \<open>Readiness\<close>

lemma ready_handle_save:
  "ready_for_state (ctx s) \<Longrightarrow> ready_for_state (ctx (ra_gekkonet_handle_save ev s))"
  by (simp add: ra_gekkonet_handle_save_def Let_def split: option.splits prod.splits)

lemma ready_handle_load:
  "ready_for_state (ctx (ra_gekkonet_handle_load ev s)) = ready_for_state (ctx s)"
  by (simp add: ra_gekkonet_handle_load_def Let_def split: option.splits prod.splits)

lemma ready_handle_advance:
  "ready_for_state (ctx s) \<Longrightarrow> ready_for_state (ctx (ra_gekkonet_handle_advance ev s))"
  by (simp add: ra_gekkonet_handle_advance_def Let_def split: option.splits)

lemma ready_dispatch:
  "ready_for_state (ctx s) \<Longrightarrow> ready_for_state (ctx (dispatch_game_event s ev))"
  by (cases "(s, ev)" rule: dispatch_game_event.cases)
     (simp_all add: ready_handle_save ready_handle_load ready_handle_advance)

lemma ready_dispatch_all:
  "ready_for_state (ctx s) \<Longrightarrow> ready_for_state (ctx (foldl dispatch_game_event s evs))"
  by (induction evs arbitrary: s) (simp_all add: ready_dispatch)

lemma ready_process_game_events:
  "ready_for_state (ctx s) \<Longrightarrow> ready_for_state (ctx (ra_gekkonet_process_game_events evs s))"
  by (simp add: ra_gekkonet_process_game_events_def Let_def ready_dispatch_all split: option.splits)

lemma ready_forward:
  "ready_for_state (ctx (forward_session_event s ev)) = ready_for_state (ctx s)"
  by (cases ev) (simp_all add: Let_def split: option.splits)

lemma ready_forward_all:
  "ready_for_state (ctx (foldl forward_session_event s evs)) = ready_for_state (ctx s)"
  by (induction evs arbitrary: s) (simp_all add: ready_forward)

lemma ready_process_session_events:
  "ready_for_state (ctx (ra_gekkonet_process_session_events evs s)) = ready_for_state (ctx s)"
  by (simp add: ra_gekkonet_process_session_events_def Let_def ready_forward_all split: option.splits)

lemma ready_remember:
  "ready_for_state (ra_gekkonet_remember_addr e c a) = ready_for_state c"
  by (simp add: ra_gekkonet_remember_addr_def Let_def split: option.splits)

lemma ready_add_actor:
  "ready_for_state (ctx (snd (ra_gekkonet_add_actor e t a s))) = ready_for_state (ctx s)"
  by (simp add: ra_gekkonet_add_actor_def Let_def ready_remember split: option.splits)

lemma ready_auto_add:
  "ready_for_state (ctx (auto_add_remote e a s)) = ready_for_state (ctx s)"
  by (simp add: auto_add_remote_def ready_add_actor split: option.splits)

lemma ready_step:
  "ready_for_state (ctx (snd (udp_receive_step fd d n s))) = ready_for_state (ctx s)"
  by (simp add: udp_receive_step_def Let_def ready_auto_add split: option.splits)

lemma ready_loop:
  "ready_for_state (ctx (snd (udp_receive_loop fd ds acc s))) = ready_for_state (ctx s)"
proof (induction ds arbitrary: acc s)
  case Nil
  show ?case by simp
next
  case (Cons d ds)
  obtain r s' where st: "udp_receive_step fd d (length acc) s = (r, s')"
    by (cases "udp_receive_step fd d (length acc) s")
  have "ready_for_state (ctx s') = ready_for_state (ctx s)"
    using ready_step [of fd d "length acc" s] st by simp
  with Cons.IH st show ?case
    by (cases r) simp_all
qed

lemma ready_poll:
  "ready_for_state (ctx (gekko_network_poll h ds s)) = ready_for_state (ctx s)"
  by (simp add: gekko_network_poll_def ra_gekkonet_udp_receive_def ready_loop split: option.splits)

lemma ready_update:
  "ready_for_state (ctx s) \<Longrightarrow> ready_for_state (ctx (ra_gekkonet_update e s))"
  by (simp add: ra_gekkonet_update_def Let_def ready_process_game_events
      ready_process_session_events ready_poll split: option.splits)

lemma init_success:
  assumes "ra_gekkonet_init e params save load s = (True, s')"
  shows "\<not> ready_for_state (ctx s') \<and> active (ctx s') \<and> session (ctx s') \<noteq> None"
  using assms
  by (auto simp: ra_gekkonet_init_def Let_def ctx_zero_def ra_gekkonet_udp_adapter_create_def
      split: option.splits if_splits prod.splits)
lemma handle_load_not_ready:
  "\<not> ready_for_state (ctx s) \<Longrightarrow> ra_gekkonet_handle_load ev s = s"
  by (simp add: ra_gekkonet_handle_load_def split: option.splits)

lemma handle_advance_ready:
  assumes "current_input_buf (ctx s) \<noteq> None" and "adv_inputs ev \<noteq> None"
  shows "ready_for_state (ctx (ra_gekkonet_handle_advance ev s))"
  using assms
  by (auto simp: ra_gekkonet_handle_advance_def Let_def split: option.splits)

lemma handle_advance_keeps_save:
  "save_cb (ctx (ra_gekkonet_handle_advance ev s)) = save_cb (ctx s)
   \<and> state_size (ctx (ra_gekkonet_handle_advance ev s)) = state_size (ctx s)"
  by (simp add: ra_gekkonet_handle_advance_def Let_def split: option.splits)

text \<open>
  Claim C3. The readiness flag. After a successful \<^verbatim>\<open>ra_gekkonet_init\<close> it is false. While
  it is false a Load event changes nothing: no callback runs, the state is the same. A
  Save event whose callback reports success sets it, and so does an Advance event that
  is carried out (the session has its buffer, the event its payload); after such an
  Advance a Save event with its pointers reaches the save callback. Once the flag is
  set, no game event, no run of the game events of a tick and no whole tick clears it.
\<close>

theorem ready_for_state_machine:
  "(ra_gekkonet_init e params save load s0 = (True, s1) \<longrightarrow> \<not> ready_for_state (ctx s1))
   \<and> (\<not> ready_for_state (ctx s2) \<longrightarrow> ra_gekkonet_handle_load lev s2 = s2)
   \<and> (save_cb (ctx s3) = Some cb \<and> save_state sev \<and> save_state_len sev = Some requested
        \<and> fst (cb (min requested (state_size (ctx s3))) (host s3))
        \<longrightarrow> ready_for_state (ctx (ra_gekkonet_handle_save sev s3)))
   \<and> (current_input_buf (ctx s4) \<noteq> None \<and> adv_inputs aev \<noteq> None
        \<longrightarrow> ready_for_state (ctx (ra_gekkonet_handle_advance aev s4))
          \<and> (save_cb (ctx s4) \<noteq> None \<and> save_state sev' \<and> save_state_len sev' = Some requested'
               \<longrightarrow> map fst (new_calls (ra_gekkonet_handle_advance aev s4)
                               (ra_gekkonet_handle_save sev' (ra_gekkonet_handle_advance aev s4)))
                     = [Save_cb (min requested' (state_size (ctx s4)))]))
   \<and> (ready_for_state (ctx s5)
        \<longrightarrow> ready_for_state (ctx (dispatch_game_event s5 ev))
          \<and> ready_for_state (ctx (ra_gekkonet_process_game_events evs s5))
          \<and> ready_for_state (ctx (ra_gekkonet_update tick s5)))"
proof -
  have a: "ra_gekkonet_init e params save load s0 = (True, s1) \<longrightarrow> \<not> ready_for_state (ctx s1)"
    using init_success [of e params save load s0 s1] by blast
  have b: "\<not> ready_for_state (ctx s2) \<longrightarrow> ra_gekkonet_handle_load lev s2 = s2"
    by (simp add: handle_load_not_ready)
  have c: "save_cb (ctx s3) = Some cb \<and> save_state sev \<and> save_state_len sev = Some requested
        \<and> fst (cb (min requested (state_size (ctx s3))) (host s3))
        \<longrightarrow> ready_for_state (ctx (ra_gekkonet_handle_save sev s3))"
    using handle_save_success [of s3 cb sev requested] by blast
  have d1: "current_input_buf (ctx s4) \<noteq> None \<and> adv_inputs aev \<noteq> None
        \<longrightarrow> ready_for_state (ctx (ra_gekkonet_handle_advance aev s4))"
    using handle_advance_ready [of s4 aev] by blast
  have d2: "save_cb (ctx s4) \<noteq> None \<and> save_state sev' \<and> save_state_len sev' = Some requested'
               \<longrightarrow> map fst (new_calls (ra_gekkonet_handle_advance aev s4)
                               (ra_gekkonet_handle_save sev' (ra_gekkonet_handle_advance aev s4)))
                     = [Save_cb (min requested' (state_size (ctx s4)))]"
    by (auto simp: new_calls_def handle_save_trace handle_advance_keeps_save)
  have f: "ready_for_state (ctx s5)
        \<longrightarrow> ready_for_state (ctx (dispatch_game_event s5 ev))
          \<and> ready_for_state (ctx (ra_gekkonet_process_game_events evs s5))
          \<and> ready_for_state (ctx (ra_gekkonet_update tick s5))"
    by (simp add: ready_dispatch ready_process_game_events ready_update)
  from a b c d1 d2 f show ?thesis by blast
qed

theorem ready_for_state_machine_witness:
  "ra_gekkonet_init demo_env (Some demo_params) (Some demo_save) (Some demo_load) (sys_zero ())
     = (True, demo_sys)
   \<and> \<not> ready_for_state (ctx demo_sys)
   \<and> ra_gekkonet_handle_load \<lparr>load_frame = 0, load_state = Some [7], load_state_len = 1\<rparr> demo_sys = demo_sys
   \<and> ready_for_state (ctx (ra_gekkonet_handle_save
        \<lparr>save_frame = 0, save_state = True, save_state_len = Some 1024, save_checksum = Some 0\<rparr> demo_sys))
   \<and> ready_for_state (ctx (ra_gekkonet_handle_advance
        \<lparr>adv_frame = 1, adv_input_len = 2, adv_inputs = Some [1, 2], adv_rolling_back = False\<rparr> demo_sys))
   \<and> map fst (new_calls
        (ra_gekkonet_handle_advance
           \<lparr>adv_frame = 1, adv_input_len = 2, adv_inputs = Some [1, 2], adv_rolling_back = False\<rparr> demo_sys)
        (ra_gekkonet_handle_save
           \<lparr>save_frame = 1, save_state = True, save_state_len = Some 1024, save_checksum = Some 0\<rparr>
           (ra_gekkonet_handle_advance
              \<lparr>adv_frame = 1, adv_input_len = 2, adv_inputs = Some [1, 2], adv_rolling_back = False\<rparr> demo_sys)))
       = [Save_cb 256]
   \<and> ready_for_state (ctx (ra_gekkonet_update
        \<lparr>pending = [], session_events = None,
         game_events = Some [Some (LoadEvent \<lparr>load_frame = 0, load_state = Some [7], load_state_len = 1\<rparr>)]\<rparr>
        (demo_sys\<lparr>ctx := (ctx demo_sys)\<lparr>ready_for_state := True\<rparr>\<rparr>)))"
  using ready_for_state_machine
    [of demo_env "Some demo_params" "Some demo_save" "Some demo_load" "sys_zero ()" demo_sys
        demo_sys "\<lparr>load_frame = 0, load_state = Some [7], load_state_len = 1\<rparr>"
        demo_sys demo_save
        "\<lparr>save_frame = 0, save_state = True, save_state_len = Some 1024, save_checksum = Some 0\<rparr>" 1024
        demo_sys
        "\<lparr>adv_frame = 1, adv_input_len = 2, adv_inputs = Some [1, 2], adv_rolling_back = False\<rparr>"
        "\<lparr>save_frame = 1, save_state = True, save_state_len = Some 1024, save_checksum = Some 0\<rparr>" 1024
        "demo_sys\<lparr>ctx := (ctx demo_sys)\<lparr>ready_for_state := True\<rparr>\<rparr>"
        "Some EmptyGameEvent" "None"
        "\<lparr>pending = [], session_events = None,
          game_events = Some [Some (LoadEvent \<lparr>load_frame = 0, load_state = Some [7], load_state_len = 1\<rparr>)]\<rparr>"]
  by (simp add: demo_init demo_sys_fields demo_save_def)

subsection \<open>Registering actors\<close>

lemma remember_keeps:
  "cfg (ra_gekkonet_remember_addr e c a) = cfg c"
  "local_actor_count (ra_gekkonet_remember_addr e c a) = local_actor_count c"
  "remote_actor_count (ra_gekkonet_remember_addr e c a) = remote_actor_count c"
  "session (ra_gekkonet_remember_addr e c a) = session c"
  "active (ra_gekkonet_remember_addr e c a) = active c"
  by (simp_all add: ra_gekkonet_remember_addr_def Let_def split: option.splits)

lemma add_actor_full:
  assumes "session (ctx s) \<noteq> None"
      and "uint (num_players (cfg (ctx s))) \<le> actor_total (ctx s)"
  shows "ra_gekkonet_add_actor e RemotePlayer a s = (- 1, s)"
  using assms by (auto simp: ra_gekkonet_add_actor_def actor_total_def)

lemma add_actor_cfg:
  "cfg (ctx (snd (ra_gekkonet_add_actor e t a s))) = cfg (ctx s)"
  by (simp add: ra_gekkonet_add_actor_def Let_def remember_keeps split: option.splits)

lemma add_actor_session:
  "session (ctx (snd (ra_gekkonet_add_actor e t a s))) = session (ctx s)"
  by (simp add: ra_gekkonet_add_actor_def Let_def remember_keeps split: option.splits)

lemma add_actor_total:
  "actor_total (ctx (snd (ra_gekkonet_add_actor e t a s))) =
     (if session (ctx s) = None then actor_total (ctx s)
      else if t = RemotePlayer \<and> uint (num_players (cfg (ctx s))) \<le> actor_total (ctx s)
        then actor_total (ctx s)
      else if a \<noteq> None \<and> a \<noteq> Some [] \<and> \<not> copy_ok e then actor_total (ctx s)
      else if handle e < 0 then actor_total (ctx s)
      else if t = Spectator then actor_total (ctx s)
      else actor_total (ctx s) + 1)"
  by (cases t)
     (auto simp: ra_gekkonet_add_actor_def Let_def remember_keeps actor_total_def
       split: option.splits)

lemma add_actor_within:
  assumes "within_capacity (ctx s)" and "t \<noteq> LocalPlayer"
  shows "within_capacity (ctx (snd (ra_gekkonet_add_actor e t a s)))"
  using assms by (cases t) (auto simp: within_capacity_def add_actor_total add_actor_cfg)

lemma add_actors_within:
  assumes "within_capacity (ctx s)" and "\<forall>c \<in> set calls. fst (snd c) \<noteq> LocalPlayer"
  shows "within_capacity (ctx (add_actors calls s))"
  using assms
proof (induction calls arbitrary: s)
  case Nil
  then show ?case by simp
next
  case (Cons c calls)
  obtain e t a where c: "c = (e, t, a)"
    by (cases c)
  with Cons.prems have "t \<noteq> LocalPlayer"
    by simp
  with Cons.prems(1) have "within_capacity (ctx (snd (ra_gekkonet_add_actor e t a s)))"
    by (rule add_actor_within)
  with Cons.IH Cons.prems(2) c show ?case
    by simp
qed

text \<open>
  Claim C4, as amended. On a session with an engine handle a Remote registration made
  when the local and remote actors together have reached \<open>num_players\<close> returns \<open>-1\<close> and
  leaves the whole state as it was: no engine call, no counter touched. And from a state
  within the capacity, no sequence of Remote and Spectator registrations takes the total
  above it, at any point of the sequence. (Local registrations are not tested against the
  capacity: each one the engine accepts is counted.)
\<close>

theorem add_actor_remote_capacity:
  "(session (ctx s) \<noteq> None \<and> uint (num_players (cfg (ctx s))) \<le> actor_total (ctx s)
      \<longrightarrow> ra_gekkonet_add_actor e RemotePlayer a s = (- 1, s))
   \<and> (within_capacity (ctx s') \<and> (\<forall>c \<in> set calls. fst (snd c) \<noteq> LocalPlayer)
      \<longrightarrow> (\<forall>n. within_capacity (ctx (add_actors (take n calls) s'))))"
proof -
  have "within_capacity (ctx (add_actors (take n calls) s'))"
    if "within_capacity (ctx s')" and "\<forall>c \<in> set calls. fst (snd c) \<noteq> LocalPlayer" for n
  proof -
    from that(2) have "\<forall>c \<in> set (take n calls). fst (snd c) \<noteq> LocalPlayer"
      by (meson in_set_takeD)
    with that(1) show ?thesis
      by (rule add_actors_within)
  qed
  then show ?thesis
    using add_actor_full [of s e a] by blast
qed

lemma demo_known: "\<not> ra_gekkonet_addr_known (ctx demo_sys) (Some a)"
  by (simp add: ra_gekkonet_addr_known_def demo_sys_def ra_gekkonet_init_def demo_env_def Let_def
      ra_gekkonet_udp_adapter_create_def ctx_zero_def sys_zero_def)

lemma demo_total: "actor_total (ctx demo_sys) = 0"
  by (simp add: actor_total_def demo_sys_fields)

text \<open>
  The invariant of claim C4 as the spec states it, for every sequence of registrations,
  fails: with two players configured, a Local, a Remote and another Local registration,
  each accepted by the engine, leave three actors counted.
\<close>

theorem add_actor_local_counterexample:
  "\<not> within_capacity (ctx (add_actors
        [(accept 0, LocalPlayer, None), (accept 1, RemotePlayer, Some ''10.0.0.2:7000''),
         (accept 2, LocalPlayer, None)] demo_sys))"
  by (simp add: within_capacity_def add_actor_total add_actor_cfg add_actor_session
      demo_sys_fields demo_total accept_def)

theorem add_actor_remote_capacity_witness:
  "session (ctx (add_actors [(accept 0, LocalPlayer, None),
                             (accept 1, RemotePlayer, Some ''10.0.0.2:7000'')] demo_sys)) \<noteq> None
   \<and> uint (num_players (cfg (ctx (add_actors [(accept 0, LocalPlayer, None),
                             (accept 1, RemotePlayer, Some ''10.0.0.2:7000'')] demo_sys))))
       \<le> actor_total (ctx (add_actors [(accept 0, LocalPlayer, None),
                             (accept 1, RemotePlayer, Some ''10.0.0.2:7000'')] demo_sys))
   \<and> ra_gekkonet_add_actor (accept 2) RemotePlayer (Some ''10.0.0.3:7000'')
        (add_actors [(accept 0, LocalPlayer, None),
                     (accept 1, RemotePlayer, Some ''10.0.0.2:7000'')] demo_sys)
       = (- 1, add_actors [(accept 0, LocalPlayer, None),
                           (accept 1, RemotePlayer, Some ''10.0.0.2:7000'')] demo_sys)
   \<and> within_capacity (ctx demo_sys)
   \<and> within_capacity (ctx (add_actors (take 3
        [(accept 0, RemotePlayer, Some ''10.0.0.2:7000''), (accept 1, RemotePlayer, Some ''10.0.0.3:7000''),
         (accept 2, RemotePlayer, Some ''10.0.0.4:7000'')]) demo_sys))
   \<and> actor_total (ctx (add_actors
        [(accept 0, RemotePlayer, Some ''10.0.0.2:7000''), (accept 1, RemotePlayer, Some ''10.0.0.3:7000''),
         (accept 2, RemotePlayer, Some ''10.0.0.4:7000'')] demo_sys)) = 2"
proof -
  have full: "session (ctx (add_actors [(accept 0, LocalPlayer, None),
                             (accept 1, RemotePlayer, Some ''10.0.0.2:7000'')] demo_sys)) \<noteq> None
     \<and> uint (num_players (cfg (ctx (add_actors [(accept 0, LocalPlayer, None),
                             (accept 1, RemotePlayer, Some ''10.0.0.2:7000'')] demo_sys))))
       \<le> actor_total (ctx (add_actors [(accept 0, LocalPlayer, None),
                             (accept 1, RemotePlayer, Some ''10.0.0.2:7000'')] demo_sys))"
    by (simp add: add_actor_total add_actor_cfg add_actor_session demo_sys_fields demo_total accept_def)
  have within: "within_capacity (ctx demo_sys)"
    by (simp add: within_capacity_def demo_total)
  have remote: "\<forall>c \<in> set [(accept 0, RemotePlayer, Some ''10.0.0.2:7000''),
         (accept 1, RemotePlayer, Some ''10.0.0.3:7000''),
         (accept 2, RemotePlayer, Some ''10.0.0.4:7000'')]. fst (snd c) \<noteq> LocalPlayer"
    by simp
  have total: "actor_total (ctx (add_actors
        [(accept 0, RemotePlayer, Some ''10.0.0.2:7000''), (accept 1, RemotePlayer, Some ''10.0.0.3:7000''),
         (accept 2, RemotePlayer, Some ''10.0.0.4:7000'')] demo_sys)) = 2"
    by (simp add: add_actor_total add_actor_cfg add_actor_session demo_sys_fields demo_total accept_def)
  from add_actor_remote_capacity
    [of "add_actors [(accept 0, LocalPlayer, None),
                     (accept 1, RemotePlayer, Some ''10.0.0.2:7000'')] demo_sys"
        "accept 2" "Some ''10.0.0.3:7000''" demo_sys
        "[(accept 0, RemotePlayer, Some ''10.0.0.2:7000''), (accept 1, RemotePlayer, Some ''10.0.0.3:7000''),
          (accept 2, RemotePlayer, Some ''10.0.0.4:7000'')]"]
    full within remote total
  show ?thesis by blast
qed

subsection \<open>A failed init\<close>

lemma init_failure:
  assumes "ra_gekkonet_init e (Some p) save load s = (False, s')"
  shows "\<not> active (ctx s') \<and> session (ctx s') = None"
  using assms
  by (auto simp: ra_gekkonet_init_def Let_def ctx_zero_def ra_gekkonet_udp_adapter_create_def
      split: option.splits if_splits prod.splits)

lemma inert_calls:
  assumes "\<not> active (ctx s)" and "session (ctx s) = None"
  shows "ra_gekkonet_update tick s = s"
    and "ra_gekkonet_push_local_input h blob s = (False, s)"
    and "ra_gekkonet_set_local_delay h d s = s"
    and "ra_gekkonet_deinit s = s"
    and "ra_gekkonet_add_actor ae t a s = (- 1, s)"
  using assms
  by (simp_all add: ra_gekkonet_update_def ra_gekkonet_push_local_input_def
      ra_gekkonet_set_local_delay_def ra_gekkonet_deinit_def ra_gekkonet_add_actor_def)

text \<open>
  Claim C10, as amended. If \<^verbatim>\<open>ra_gekkonet_init\<close>, called with parameters, returns false, the
  context it leaves is not active and has no engine handle, and on that context
  \<^verbatim>\<open>ra_gekkonet_update\<close>, \<^verbatim>\<open>ra_gekkonet_set_local_delay\<close> and \<^verbatim>\<open>ra_gekkonet_deinit\<close> return the state
  as it is (so no call leaves the file), and \<^verbatim>\<open>ra_gekkonet_push_local_input\<close> does so too and
  returns false.
\<close>

theorem init_failure_inert:
  assumes "ra_gekkonet_init e (Some p) save load s = (False, s')"
  shows "\<not> active (ctx s') \<and> session (ctx s') = None
       \<and> ra_gekkonet_update tick s' = s'
       \<and> ra_gekkonet_push_local_input h blob s' = (False, s')
       \<and> ra_gekkonet_set_local_delay h d s' = s'
       \<and> ra_gekkonet_deinit s' = s'"
  using init_failure [OF assms] by (simp add: inert_calls)

lemma no_bind_init:
  "ra_gekkonet_init no_bind_env (Some demo_params) (Some demo_save) (Some demo_load) (sys_zero ())
   = (False,
      \<lparr>ctx = ctx_zero\<lparr>save_cb := Some demo_save, load_cb := Some demo_load,
                       state_size := 256, input_size := 4,
                       cfg := \<lparr>num_players = 2, max_spectators = 0, input_prediction_window = 8,
                               spectator_delay = 0, cfg_input_size = 4, cfg_state_size = 256,
                               limited_saving = False, post_sync_joining = False,
                               desync_detection = False\<rparr>,
                       current_input_buf := Some [0, 0, 0, 0], current_input := True\<rparr>,
       g_udp_adapter = None, g_udp_results_cap = 0, host = (),
       trace = [(Gekko_create, None), (Sys_socket, Some [0, 0, 0, 0]),
                (Sys_set_nonblock 3, Some [0, 0, 0, 0]), (Sys_bind 3 7000, Some [0, 0, 0, 0]),
                (Sys_close 3, Some [0, 0, 0, 0]), (Gekko_destroy 1, Some [0, 0, 0, 0])],
       ub = False\<rparr>)"
  by (simp add: ra_gekkonet_init_def no_bind_env_def demo_params_def Let_def
      ra_gekkonet_udp_adapter_create_def ctx_zero_def sys_zero_def replicate_4 emit_def
      ra_gekkonet_get_current_input_def)

theorem init_failure_inert_witness:
  "ra_gekkonet_init no_bind_env (Some demo_params) (Some demo_save) (Some demo_load) (sys_zero ())
     = (False, snd (ra_gekkonet_init no_bind_env (Some demo_params) (Some demo_save) (Some demo_load)
                      (sys_zero ())))
   \<and> \<not> active (ctx (snd (ra_gekkonet_init no_bind_env (Some demo_params) (Some demo_save)
                             (Some demo_load) (sys_zero ()))))
   \<and> ra_gekkonet_update quiet_tick
        (snd (ra_gekkonet_init no_bind_env (Some demo_params) (Some demo_save) (Some demo_load)
                (sys_zero ())))
       = snd (ra_gekkonet_init no_bind_env (Some demo_params) (Some demo_save) (Some demo_load)
                (sys_zero ()))
   \<and> ra_gekkonet_push_local_input 0 (Some [1, 2, 3, 4])
        (snd (ra_gekkonet_init no_bind_env (Some demo_params) (Some demo_save) (Some demo_load)
                (sys_zero ())))
       = (False, snd (ra_gekkonet_init no_bind_env (Some demo_params) (Some demo_save)
                        (Some demo_load) (sys_zero ())))"
proof -
  have f: "ra_gekkonet_init no_bind_env (Some demo_params) (Some demo_save) (Some demo_load) (sys_zero ())
     = (False, snd (ra_gekkonet_init no_bind_env (Some demo_params) (Some demo_save) (Some demo_load)
                      (sys_zero ())))"
    by (simp add: no_bind_init)
  from init_failure_inert [OF f, of quiet_tick 0 "Some [1, 2, 3, 4]"] f show ?thesis
    by simp
qed

text \<open>
  Claim C10 as stated, for every failing \<^verbatim>\<open>ra_gekkonet_init\<close>, fails for a \<^verbatim>\<open>NULL\<close> \<^verbatim>\<open>params\<close>:
  the function returns false before it zeroes the context, so a context that was active
  stays active, keeps its engine handle, and the next call reaches the engine.
\<close>

theorem init_null_params_counterexample:
  "\<not> fst (ra_gekkonet_init demo_env None (Some demo_save) (Some demo_load) demo_sys)
   \<and> active (ctx (snd (ra_gekkonet_init demo_env None (Some demo_save) (Some demo_load) demo_sys)))
   \<and> session (ctx (snd (ra_gekkonet_init demo_env None (Some demo_save) (Some demo_load) demo_sys)))
       = Some 1
   \<and> new_calls demo_sys
        (ra_gekkonet_set_local_delay 0 2
           (snd (ra_gekkonet_init demo_env None (Some demo_save) (Some demo_load) demo_sys)))
       = [(Gekko_set_local_delay 1 0 2, Some [0, 0, 0, 0])]"
  by (simp add: ra_gekkonet_init_def demo_sys_fields ra_gekkonet_set_local_delay_def new_calls_def
      ra_gekkonet_get_current_input_def)

text \<open>
  Claim C5 at the failing input: \<^verbatim>\<open>gekko_create\<close> and the \<^verbatim>\<open>calloc\<close> of the input buffer
  succeed, the adapter cannot bind. \<^verbatim>\<open>ra_gekkonet_init\<close> returns false after destroying the
  engine handle, but the calls it made include no \<^verbatim>\<open>free\<close>: the context still holds the
  input buffer, and \<^verbatim>\<open>ra_gekkonet_deinit\<close>, finding the context inactive, does nothing.
\<close>

theorem init_adapter_failure_keeps_input_buf:
  "fst (ra_gekkonet_init no_bind_env (Some demo_params) (Some demo_save) (Some demo_load) (sys_zero ()))
     = False
   \<and> current_input_buf (ctx (snd (ra_gekkonet_init no_bind_env (Some demo_params) (Some demo_save)
                                     (Some demo_load) (sys_zero ()))))
       = Some [0, 0, 0, 0]
   \<and> map fst (trace (snd (ra_gekkonet_init no_bind_env (Some demo_params) (Some demo_save)
                             (Some demo_load) (sys_zero ()))))
       = [Gekko_create, Sys_socket, Sys_set_nonblock 3, Sys_bind 3 7000, Sys_close 3, Gekko_destroy 1]
   \<and> ra_gekkonet_deinit (snd (ra_gekkonet_init no_bind_env (Some demo_params) (Some demo_save)
                                 (Some demo_load) (sys_zero ())))
       = snd (ra_gekkonet_init no_bind_env (Some demo_params) (Some demo_save) (Some demo_load)
                (sys_zero ()))"
  by (simp add: no_bind_init ra_gekkonet_deinit_def ctx_zero_def)

subsection \<open>Sending\<close>

lemma strrchr_None: "strrchr xs c = None \<longleftrightarrow> c \<notin> set xs"
  by (induction xs) (auto split: option.splits)

lemma strrchr_last:
  "c \<notin> set p \<Longrightarrow> strrchr (h @ c # p) c = Some (length h)"
proof (induction h)
  case Nil
  then have "strrchr p c = None"
    by (simp add: strrchr_None)
  then show ?case by simp
next
  case (Cons x h)
  then show ?case by simp
qed

lemma inet_pton4_colon: "inet_pton4 (CHR '':'' # x) = None"
  by (simp add: inet_pton4_def digit_of_def)

lemma inet_pton4_empty: "inet_pton4 [] = None"
  by (simp add: inet_pton4_def)

lemma cstr_colon: "cstr (CHR '':'' # d) = CHR '':'' # cstr d"
  by (simp add: cstr_def)

lemma udp_send_bad_length:
  "length d = 0 \<or> 128 \<le> length d \<Longrightarrow> ra_gekkonet_udp_send (Some (Some d)) data len s = s"
  by (auto simp: ra_gekkonet_udp_send_def ra_gekkonet_parse_addr_def split: option.splits)

lemma udp_send_no_colon:
  "CHR '':'' \<notin> set (cstr d) \<Longrightarrow> ra_gekkonet_udp_send (Some (Some d)) data len s = s"
  by (auto simp: ra_gekkonet_udp_send_def ra_gekkonet_parse_addr_def Let_def strrchr_None [symmetric]
      split: option.splits)

lemma parse_leading_colon:
  assumes "ra_gekkonet_parse_addr (Some (Some (CHR '':'' # d))) 64 = Some (h, port)"
  shows "inet_pton4 h = None"
proof -
  from assms obtain colon where
    c: "strrchr (CHR '':'' # cstr d) (CHR '':'') = Some colon" and nz: "colon \<noteq> 0"
    and h: "h = take (if colon \<ge> 64 then 63 else colon) (CHR '':'' # cstr d)"
    by (auto simp: ra_gekkonet_parse_addr_def Let_def cstr_colon split: option.splits if_splits)
  define k where "k = (if colon \<ge> 64 then 63 else colon)"
  from nz have "k \<noteq> 0"
    by (simp add: k_def)
  then obtain n where "k = Suc n"
    using not0_implies_Suc by blast
  with h have "h = CHR '':'' # take n (cstr d)"
    by (simp add: k_def [symmetric])
  then show ?thesis
    by (simp add: inet_pton4_colon)
qed

lemma udp_send_leading_colon:
  "ra_gekkonet_udp_send (Some (Some (CHR '':'' # d))) data len s = s"
proof (cases "ra_gekkonet_parse_addr (Some (Some (CHR '':'' # d))) 64")
  case None
  then show ?thesis
    by (simp add: ra_gekkonet_udp_send_def split: option.splits)
next
  case (Some r)
  obtain h port where r: "r = (h, port)"
    by (cases r)
  with Some have "inet_pton4 h = None"
    by (simp add: parse_leading_colon)
  with Some r show ?thesis
    by (simp add: ra_gekkonet_udp_send_def split: option.splits)
qed

lemma udp_send_bad_host:
  assumes "ra_gekkonet_parse_addr (Some (Some d)) 64 = Some (h, port)" and "inet_pton4 h = None"
  shows "ra_gekkonet_udp_send (Some (Some d)) data len s = s"
  using assms by (simp add: ra_gekkonet_udp_send_def split: option.splits)

lemma parse_addr_split:
  assumes "length d < 128" and "cstr d = h @ CHR '':'' # p" and "CHR '':'' \<notin> set p"
      and "h \<noteq> []" and "length h < 64"
  shows "ra_gekkonet_parse_addr (Some (Some d)) 64 = Some (h, ucast (strtoul p))"
proof -
  from assms(2) have "d \<noteq> []"
    by (auto simp: cstr_def)
  with assms show ?thesis
    by (simp add: ra_gekkonet_parse_addr_def Let_def strrchr_last)
qed

text \<open>
  Claim C7, as amended. A send is dropped, the state (and with it the trace) staying as it
  is, when the address is empty or has 128 bytes or more, when it has no colon, when it
  starts with a colon, and when the text before the last colon is not a dotted IPv4
  address. The port is not examined: for an address of fewer than 128 bytes whose host
  part is a dotted quad, whatever follows the last colon, the datagram is handed to
  \<^verbatim>\<open>sendto\<close> with the port that \<^verbatim>\<open>strtoul\<close> makes of that text, cut to 16 bits.
\<close>

theorem udp_send_drops_malformed:
  "(length d = 0 \<or> 128 \<le> length d \<or> CHR '':'' \<notin> set (cstr d) \<or> (\<exists>r. d = CHR '':'' # r)
      \<longrightarrow> ra_gekkonet_udp_send (Some (Some d)) data len s = s)
   \<and> (ra_gekkonet_parse_addr (Some (Some d1)) 64 = Some (h1, port1) \<and> inet_pton4 h1 = None
      \<longrightarrow> ra_gekkonet_udp_send (Some (Some d1)) data len s = s)
   \<and> (g_udp_adapter s2 = Some ad \<and> 0 < len2 \<and> length d2 < 128
        \<and> cstr d2 = h2 @ CHR '':'' # p \<and> CHR '':'' \<notin> set p \<and> length h2 < 64
        \<and> inet_pton4 h2 = Some ip
      \<longrightarrow> ra_gekkonet_udp_send (Some (Some d2)) (Some bytes) len2 s2
            = emit (Sys_sendto (sockfd ad) ip (ucast (strtoul p)) (take (nat len2) bytes)) s2)"
proof -
  have a: "length d = 0 \<or> 128 \<le> length d \<or> CHR '':'' \<notin> set (cstr d) \<or> (\<exists>r. d = CHR '':'' # r)
      \<longrightarrow> ra_gekkonet_udp_send (Some (Some d)) data len s = s"
    using udp_send_bad_length [of d data len s] udp_send_no_colon [of d data len s]
      udp_send_leading_colon [of _ data len s]
    by blast
  have b: "ra_gekkonet_parse_addr (Some (Some d1)) 64 = Some (h1, port1) \<and> inet_pton4 h1 = None
      \<longrightarrow> ra_gekkonet_udp_send (Some (Some d1)) data len s = s"
    using udp_send_bad_host [of d1 h1 port1 data len s] by blast
  have c: "ra_gekkonet_udp_send (Some (Some d2)) (Some bytes) len2 s2
            = emit (Sys_sendto (sockfd ad) ip (ucast (strtoul p)) (take (nat len2) bytes)) s2"
    if "g_udp_adapter s2 = Some ad" "0 < len2" "length d2 < 128"
       "cstr d2 = h2 @ CHR '':'' # p" "CHR '':'' \<notin> set p" "length h2 < 64"
       "inet_pton4 h2 = Some ip"
  proof -
    from that(7) have "h2 \<noteq> []"
      by (auto simp: inet_pton4_empty)
    with that have "ra_gekkonet_parse_addr (Some (Some d2)) 64 = Some (h2, ucast (strtoul p))"
      by (simp add: parse_addr_split)
    with that show ?thesis
      by (simp add: ra_gekkonet_udp_send_def)
  qed
  from a b c show ?thesis by blast
qed

text \<open>
  Claim C7 as stated fails for a port that does not parse: \<^verbatim>\<open>10.0.0.2:7000x\<close> is sent to
  port 7000 and \<^verbatim>\<open>10.0.0.2:port\<close> to port 0.
\<close>

theorem udp_send_bad_port_counterexample:
  "new_calls demo_sys
     (ra_gekkonet_udp_send (Some (Some ''10.0.0.2:7000x'')) (Some [1, 2, 3]) 3 demo_sys)
     = [(Sys_sendto 3 [10, 0, 0, 2] 7000 [1, 2, 3], Some [0, 0, 0, 0])]
   \<and> new_calls demo_sys
     (ra_gekkonet_udp_send (Some (Some ''10.0.0.2:port'')) (Some [1, 2, 3]) 3 demo_sys)
     = [(Sys_sendto 3 [10, 0, 0, 2] 0 [1, 2, 3], Some [0, 0, 0, 0])]"
  by (simp add: ra_gekkonet_udp_send_def ra_gekkonet_parse_addr_def cstr_def strtoul_def
      digit_of_def isspace_def inet_pton4_def demo_sys_fields new_calls_def
      ra_gekkonet_get_current_input_def)

theorem udp_send_drops_malformed_witness:
  "ra_gekkonet_udp_send (Some (Some '':7000'')) (Some [1, 2, 3]) 3 demo_sys = demo_sys
   \<and> ra_gekkonet_parse_addr (Some (Some ''example:7000'')) 64 = Some (''example'', 7000)
   \<and> inet_pton4 ''example'' = None
   \<and> ra_gekkonet_udp_send (Some (Some ''example:7000'')) (Some [1, 2, 3]) 3 demo_sys = demo_sys
   \<and> inet_pton4 ''10.0.0.2'' = Some [10, 0, 0, 2]
   \<and> new_calls demo_sys
        (ra_gekkonet_udp_send (Some (Some ''10.0.0.2:7000'')) (Some [1, 2, 3]) 3 demo_sys)
       = [(Sys_sendto 3 [10, 0, 0, 2] 7000 [1, 2, 3], Some [0, 0, 0, 0])]"
proof -
  have p1: "ra_gekkonet_parse_addr (Some (Some ''example:7000'')) 64 = Some (''example'', 7000)"
    by (simp add: ra_gekkonet_parse_addr_def cstr_def strtoul_def digit_of_def isspace_def)
  have h1: "inet_pton4 ''example'' = None"
    by (simp add: inet_pton4_def digit_of_def)
  have c2: "cstr ''10.0.0.2:7000'' = ''10.0.0.2'' @ CHR '':'' # ''7000''"
    by (simp add: cstr_def)
  have h2: "inet_pton4 ''10.0.0.2'' = Some [10, 0, 0, 2]"
    by (simp add: inet_pton4_def digit_of_def)
  have port: "(ucast (strtoul ''7000'') :: u16) = 7000"
    by (simp add: strtoul_def digit_of_def isspace_def)
  from udp_send_drops_malformed
    [where d = "'':7000''" and data = "Some [1, 2, 3]" and len = 3 and s = demo_sys
       and ?d1.0 = "''example:7000''" and ?h1.0 = "''example''" and ?port1.0 = 7000
       and ?s2.0 = demo_sys and ad = "\<lparr>sockfd = 3, owner = True\<rparr>" and ?len2.0 = 3
       and ?d2.0 = "''10.0.0.2:7000''" and ?h2.0 = "''10.0.0.2''" and p = "''7000''"
       and ip = "[10, 0, 0, 2]" and bytes = "[1, 2, 3]"]
    p1 h1 c2 h2 port
  show ?thesis
    by (simp add: demo_sys_fields new_calls_def ra_gekkonet_get_current_input_def)
qed

subsection \<open>The current input during a tick\<close>

lemma quietI:
  assumes "trace s' = trace s @ ys"
      and "\<forall>k \<in> set ys. snd k = ra_gekkonet_get_current_input (ctx s)"
      and "ra_gekkonet_get_current_input (ctx s') = ra_gekkonet_get_current_input (ctx s)"
  shows "quiet s s'"
  using assms by (simp add: quiet_def new_calls_def list_all_iff)

lemma quietD:
  assumes "quiet s s'"
  shows "trace s' = trace s @ new_calls s s'"
    and "\<forall>k \<in> set (new_calls s s'). snd k = ra_gekkonet_get_current_input (ctx s)"
    and "ra_gekkonet_get_current_input (ctx s') = ra_gekkonet_get_current_input (ctx s)"
  using assms by (simp_all add: quiet_def list_all_iff)

lemma quiet_refl: "quiet s s"
  by (rule quietI [of _ _ "[]"]) simp_all

lemma quiet_trans:
  assumes "quiet s s'" and "quiet s' s''"
  shows "quiet s s''"
proof (rule quietI [of _ _ "new_calls s s' @ new_calls s' s''"])
  show "trace s'' = trace s @ new_calls s s' @ new_calls s' s''"
    using quietD(1) [OF assms(1)] quietD(1) [OF assms(2)] by simp
  show "\<forall>k \<in> set (new_calls s s' @ new_calls s' s''). snd k = ra_gekkonet_get_current_input (ctx s)"
    using quietD(2) [OF assms(1)] quietD(2) [OF assms(2)] quietD(3) [OF assms(1)] by auto
  show "ra_gekkonet_get_current_input (ctx s'') = ra_gekkonet_get_current_input (ctx s)"
    using quietD(3) [OF assms(1)] quietD(3) [OF assms(2)] by simp
qed

lemma quiet_emit: "quiet s (emit k s)"
  by (rule quietI [of _ _ "[(k, ra_gekkonet_get_current_input (ctx s))]"]) simp_all

lemma quiet_same_trace:
  assumes "trace s' = trace s"
      and "ra_gekkonet_get_current_input (ctx s') = ra_gekkonet_get_current_input (ctx s)"
  shows "quiet s s'"
  using assms by (intro quietI [of _ _ "[]"]) simp_all

lemma remember_input:
  "current_input (ra_gekkonet_remember_addr e c a) = current_input c"
  "current_input_buf (ra_gekkonet_remember_addr e c a) = current_input_buf c"
  by (simp_all add: ra_gekkonet_remember_addr_def Let_def split: option.splits)

lemma remember_get_input:
  "ra_gekkonet_get_current_input (ra_gekkonet_remember_addr e c a) = ra_gekkonet_get_current_input c"
  by (simp add: ra_gekkonet_get_current_input_def remember_input)

lemma quiet_add_actor: "quiet s (snd (ra_gekkonet_add_actor e t a s))"
proof -
  have 1: "quiet s (emit k s)" for k
    by (rule quiet_emit)
  have 2: "quiet s (emit k2 (emit k1 s))" for k1 k2
    by (rule quiet_trans [OF quiet_emit quiet_emit])
  have 3: "quiet s ((emit k s)\<lparr>ctx := c\<rparr>)"
    if "ra_gekkonet_get_current_input c = ra_gekkonet_get_current_input (ctx s)" for k c
    by (rule quietI [of _ _ "[(k, ra_gekkonet_get_current_input (ctx s))]"]) (simp_all add: that)
  show ?thesis
    by (auto simp: ra_gekkonet_add_actor_def Let_def quiet_refl 1 2 remember_input
          ra_gekkonet_get_current_input_def
        intro!: 3 split: option.splits)
qed

lemma quiet_auto_add: "quiet s (auto_add_remote e a s)"
  by (simp add: auto_add_remote_def quiet_refl quiet_add_actor split: option.splits)

lemma quiet_cap: "quiet s s' \<Longrightarrow> quiet s (s'\<lparr>g_udp_results_cap := n\<rparr>)"
  by (simp add: quiet_def new_calls_def)

lemma quiet_step: "quiet s (snd (udp_receive_step fd d n s))"
proof -
  have e: "quiet s (emit (Sys_recvfrom fd) s)"
    by (rule quiet_emit)
  have c: "quiet s ((emit (Sys_recvfrom fd) s)\<lparr>g_udp_results_cap := m\<rparr>)" for m
    by (rule quiet_cap [OF e])
  have a: "quiet s (auto_add_remote ae ab s')" if "quiet s s'" for ae ab s'
    by (rule quiet_trans [OF that quiet_auto_add])
  show ?thesis
    by (simp add: udp_receive_step_def Let_def e c a split: option.splits)
qed

lemma quiet_loop: "quiet s (snd (udp_receive_loop fd ds acc s))"
proof (induction ds arbitrary: acc s)
  case Nil
  show ?case by (simp add: quiet_emit)
next
  case (Cons d ds)
  obtain r s' where st: "udp_receive_step fd d (length acc) s = (r, s')"
    by (cases "udp_receive_step fd d (length acc) s")
  have q: "quiet s s'"
    using quiet_step [of s fd d "length acc"] st by simp
  show ?case
  proof (cases r)
    case None
    with st q show ?thesis by simp
  next
    case (Some x)
    with st quiet_trans [OF q Cons.IH [of s' "acc @ [x]"]] show ?thesis by simp
  qed
qed

lemma quiet_receive: "quiet s (snd (ra_gekkonet_udp_receive ds s))"
  by (simp add: ra_gekkonet_udp_receive_def quiet_refl quiet_loop split: option.splits)

lemma quiet_poll: "quiet s (gekko_network_poll h ds s)"
  unfolding gekko_network_poll_def by (rule quiet_trans [OF quiet_emit quiet_receive])

lemma quiet_forward: "quiet s (forward_session_event s ev)"
proof (cases ev)
  case None
  then show ?thesis by (simp add: quiet_refl)
next
  case (Some x)
  have "quiet s ((emit k s)\<lparr>host := h\<rparr>)" for k h
    by (rule quietI [of _ _ "[(k, ra_gekkonet_get_current_input (ctx s))]"]) simp_all
  with Some show ?thesis
    by (simp add: Let_def quiet_refl split: option.splits)
qed

lemma quiet_forward_all: "quiet s (foldl forward_session_event s evs)"
proof (induction evs arbitrary: s)
  case Nil
  show ?case by (simp add: quiet_refl)
next
  case (Cons ev evs)
  from quiet_trans [OF quiet_forward Cons.IH] show ?case by simp
qed

lemma quiet_session_events: "quiet s (ra_gekkonet_process_session_events evs s)"
proof -
  have "quiet s (foldl forward_session_event (emit k s) l)" for k l
    by (rule quiet_trans [OF quiet_emit quiet_forward_all])
  then show ?thesis
    by (simp add: ra_gekkonet_process_session_events_def Let_def quiet_refl quiet_emit
        split: option.splits)
qed

lemma growsI: "trace s' = trace s @ ys \<Longrightarrow> trace s' = trace s @ new_calls s s'"
  by (simp add: new_calls_def)

lemma quiet_handle_save: "quiet s (ra_gekkonet_handle_save ev s)"
proof (rule quietI)
  show "trace (ra_gekkonet_handle_save ev s) = trace s @ new_calls s (ra_gekkonet_handle_save ev s)"
    by (rule growsI [of _ _ "new_calls s (ra_gekkonet_handle_save ev s)"])
       (simp add: handle_save_trace new_calls_def split: option.splits)
  show "\<forall>k \<in> set (new_calls s (ra_gekkonet_handle_save ev s)).
          snd k = ra_gekkonet_get_current_input (ctx s)"
    by (simp add: handle_save_trace new_calls_def split: option.splits)
  show "ra_gekkonet_get_current_input (ctx (ra_gekkonet_handle_save ev s))
          = ra_gekkonet_get_current_input (ctx s)"
    by (simp add: ra_gekkonet_handle_save_def Let_def ra_gekkonet_get_current_input_def
        split: option.splits prod.splits)
qed

lemma quiet_handle_load: "quiet s (ra_gekkonet_handle_load ev s)"
proof -
  have "quiet s ((emit k s)\<lparr>host := h\<rparr>)" for k h
    by (rule quietI [of _ _ "[(k, ra_gekkonet_get_current_input (ctx s))]"]) simp_all
  then show ?thesis
    by (simp add: ra_gekkonet_handle_load_def Let_def quiet_refl split: option.splits prod.splits)
qed

lemma quiet_dispatch: "\<not> is_advance ev \<Longrightarrow> quiet s (dispatch_game_event s ev)"
  by (cases "(s, ev)" rule: dispatch_game_event.cases)
     (simp_all add: quiet_refl quiet_handle_save quiet_handle_load)

lemma quiet_dispatch_all:
  "\<forall>ev \<in> set evs. \<not> is_advance ev \<Longrightarrow> quiet s (foldl dispatch_game_event s evs)"
proof (induction evs arbitrary: s)
  case Nil
  show ?case by (simp add: quiet_refl)
next
  case (Cons ev evs)
  then have "quiet s (dispatch_game_event s ev)"
    by (simp add: quiet_dispatch)
  moreover from Cons have "quiet (dispatch_game_event s ev) (foldl dispatch_game_event (dispatch_game_event s ev) evs)"
    by simp
  ultimately show ?case
    using quiet_trans by fastforce
qed

lemma handle_advance_trace:
  "trace (ra_gekkonet_handle_advance ev s) =
     (if current_input_buf (ctx s) = None \<or> adv_inputs ev = None \<or> run_frame_cb (ctx s) = None
      then trace s
      else trace s @ [(Run_frame_cb, current_input_buf (ctx (ra_gekkonet_handle_advance ev s)))])"
  by (cases "current_input_buf (ctx s)"; cases "adv_inputs ev"; cases "run_frame_cb (ctx s)")
     (simp_all add: ra_gekkonet_handle_advance_def Let_def ra_gekkonet_get_current_input_def
       split: option.split)

lemma handle_advance_publishes:
  assumes "current_input_buf (ctx s) \<noteq> None" and "adv_inputs ev \<noteq> None"
  shows "current_input_buf (ctx (ra_gekkonet_handle_advance ev s)) \<noteq> None"
    and "ra_gekkonet_get_current_input (ctx (ra_gekkonet_handle_advance ev s))
           = current_input_buf (ctx (ra_gekkonet_handle_advance ev s))"
  using assms
  by (auto simp: ra_gekkonet_handle_advance_def Let_def ra_gekkonet_get_current_input_def
      split: option.splits)

lemma grows_dispatch:
  "trace (dispatch_game_event s ev) = trace s @ new_calls s (dispatch_game_event s ev)"
proof (cases "is_advance ev")
  case False
  then show ?thesis
    using quietD(1) [OF quiet_dispatch] by blast
next
  case True
  then obtain a where "ev = Some (AdvanceEvent a)"
    by (cases ev rule: is_advance.cases) simp_all
  then show ?thesis
    by (simp add: handle_advance_trace new_calls_def)
qed

lemma grows_dispatch_all:
  "trace (foldl dispatch_game_event s evs) = trace s @ new_calls s (foldl dispatch_game_event s evs)"
proof -
  have "\<exists>ys. trace (foldl dispatch_game_event s evs) = trace s @ ys"
  proof (induction evs arbitrary: s)
    case Nil
    show ?case by simp
  next
    case (Cons ev evs)
    from Cons.IH [of "dispatch_game_event s ev"] obtain ys where
      ys: "trace (foldl dispatch_game_event (dispatch_game_event s ev) evs)
             = trace (dispatch_game_event s ev) @ ys"
      by blast
    have "trace (foldl dispatch_game_event (s) (ev # evs))
            = trace s @ (new_calls s (dispatch_game_event s ev) @ ys)"
      unfolding foldl_Cons ys by (subst grows_dispatch [of s ev]) simp
    then show ?case
      by (rule exI)
  qed
  then obtain ys where "trace (foldl dispatch_game_event s evs) = trace s @ ys"
    by blast
  then show ?thesis
    by (rule growsI)
qed

lemma process_game_events_trace:
  assumes "session (ctx s) = Some h"
  shows "\<exists>after. trace (ra_gekkonet_process_game_events evs s)
                    = trace s @ (Gekko_update_session h, None) # after
           \<and> ((\<forall>ev \<in> set (case evs of None \<Rightarrow> [] | Some l \<Rightarrow> l). \<not> is_advance ev)
                \<longrightarrow> (\<forall>k \<in> set after. snd k = None)
                  \<and> ra_gekkonet_get_current_input (ctx (ra_gekkonet_process_game_events evs s)) = None)"
proof -
  define s2 where "s2 = emit (Gekko_update_session h) (s\<lparr>ctx := (ctx s)\<lparr>current_input := False\<rparr>\<rparr>)"
  define l where "l = (case evs of None \<Rightarrow> [] | Some l \<Rightarrow> l)"
  have none: "ra_gekkonet_get_current_input (ctx s2) = None"
    by (simp add: s2_def ra_gekkonet_get_current_input_def)
  have tr2: "trace s2 = trace s @ [(Gekko_update_session h, None)]"
    by (simp add: s2_def ra_gekkonet_get_current_input_def)
  have run: "ra_gekkonet_process_game_events evs s = foldl dispatch_game_event s2 l"
    using assms by (simp add: ra_gekkonet_process_game_events_def Let_def s2_def l_def split: option.splits)
  have tr: "trace (foldl dispatch_game_event s2 l)
              = trace s @ (Gekko_update_session h, None) # new_calls s2 (foldl dispatch_game_event s2 l)"
    using grows_dispatch_all [of s2 l] tr2 by simp
  have q: "(\<forall>k \<in> set (new_calls s2 (foldl dispatch_game_event s2 l)). snd k = None)
           \<and> ra_gekkonet_get_current_input (ctx (foldl dispatch_game_event s2 l)) = None"
    if "\<forall>ev \<in> set l. \<not> is_advance ev"
    using quietD(2,3) [OF quiet_dispatch_all [OF that, of s2]] none by simp
  from tr q show ?thesis
    unfolding run l_def [symmetric] by blast
qed

lemma session_auto_add: "session (ctx (auto_add_remote e a s)) = session (ctx s)"
  by (simp add: auto_add_remote_def add_actor_session split: option.splits)

lemma session_step: "session (ctx (snd (udp_receive_step fd d n s))) = session (ctx s)"
  by (simp add: udp_receive_step_def Let_def session_auto_add split: option.splits)

lemma session_loop: "session (ctx (snd (udp_receive_loop fd ds acc s))) = session (ctx s)"
proof (induction ds arbitrary: acc s)
  case Nil
  show ?case by simp
next
  case (Cons d ds)
  obtain r s' where st: "udp_receive_step fd d (length acc) s = (r, s')"
    by (cases "udp_receive_step fd d (length acc) s")
  have "session (ctx s') = session (ctx s)"
    using session_step [of fd d "length acc" s] st by simp
  with Cons.IH st show ?case
    by (cases r) simp_all
qed

lemma session_poll: "session (ctx (gekko_network_poll h ds s)) = session (ctx s)"
  by (simp add: gekko_network_poll_def ra_gekkonet_udp_receive_def session_loop split: option.splits)

lemma session_forward: "session (ctx (forward_session_event s ev)) = session (ctx s)"
  by (cases ev) (simp_all add: Let_def split: option.splits)

lemma session_forward_all: "session (ctx (foldl forward_session_event s evs)) = session (ctx s)"
  by (induction evs arbitrary: s) (simp_all add: session_forward)

lemma session_session_events:
  "session (ctx (ra_gekkonet_process_session_events evs s)) = session (ctx s)"
  by (simp add: ra_gekkonet_process_session_events_def Let_def session_forward_all split: option.splits)

lemma update_calls:
  assumes "active (ctx s)" and "session (ctx s) = Some h"
  shows "\<exists>after.
           new_calls s (ra_gekkonet_update e s)
             = (Gekko_network_poll h, ra_gekkonet_get_current_input (ctx s))
                 # new_calls (emit (Gekko_network_poll h) s)
                     (ra_gekkonet_process_session_events (session_events e)
                        (gekko_network_poll h (pending e) s))
                 @ (Gekko_update_session h, None) # after
           \<and> ((\<forall>ev \<in> set (case game_events e of None \<Rightarrow> [] | Some l \<Rightarrow> l). \<not> is_advance ev)
                \<longrightarrow> (\<forall>k \<in> set after. snd k = None)
                  \<and> ra_gekkonet_get_current_input (ctx (ra_gekkonet_update e s)) = None)"
proof -
  define s0 where "s0 = emit (Gekko_network_poll h) s"
  define s1 where "s1 = gekko_network_poll h (pending e) s"
  define s2 where "s2 = ra_gekkonet_process_session_events (session_events e) s1"
  have run: "ra_gekkonet_update e s = ra_gekkonet_process_game_events (game_events e) s2"
    using assms by (simp add: ra_gekkonet_update_def Let_def s1_def s2_def)
  have "quiet s0 s1"
    unfolding s0_def s1_def gekko_network_poll_def by (rule quiet_receive)
  moreover have "quiet s1 s2"
    unfolding s2_def by (rule quiet_session_events)
  ultimately have q: "quiet s0 s2"
    by (rule quiet_trans)
  have tr2: "trace s2 = trace s @ (Gekko_network_poll h, ra_gekkonet_get_current_input (ctx s))
                                   # new_calls s0 s2"
    using quietD(1) [OF q] by (simp add: s0_def)
  have "session (ctx s2) = Some h"
    using assms(2) by (simp add: s2_def s1_def session_session_events session_poll)
  from process_game_events_trace [OF this, of "game_events e"] obtain after where
    tr: "trace (ra_gekkonet_process_game_events (game_events e) s2)
           = trace s2 @ (Gekko_update_session h, None) # after"
    and none: "(\<forall>ev \<in> set (case game_events e of None \<Rightarrow> [] | Some l \<Rightarrow> l). \<not> is_advance ev)
                \<longrightarrow> (\<forall>k \<in> set after. snd k = None)
                  \<and> ra_gekkonet_get_current_input
                       (ctx (ra_gekkonet_process_game_events (game_events e) s2)) = None"
    by blast
  have eq: "new_calls s (ra_gekkonet_process_game_events (game_events e) s2)
          = (Gekko_network_poll h, ra_gekkonet_get_current_input (ctx s)) # new_calls s0 s2
              @ (Gekko_update_session h, None) # after"
    by (simp add: new_calls_def [of s] tr tr2)
  show ?thesis
    unfolding run s0_def [symmetric] s1_def [symmetric] s2_def [symmetric]
    apply (rule exI [of _ after])
    using eq none apply simp
    done
qed

lemma update_trace:
  assumes "active (ctx s)" and "session (ctx s) = Some h"
  shows "\<exists>before after.
           new_calls s (ra_gekkonet_update e s)
             = (Gekko_network_poll h, ra_gekkonet_get_current_input (ctx s)) # before
                 @ (Gekko_update_session h, None) # after
           \<and> (\<forall>k \<in> set before. snd k = ra_gekkonet_get_current_input (ctx s))
           \<and> ((\<forall>ev \<in> set (case game_events e of None \<Rightarrow> [] | Some l \<Rightarrow> l). \<not> is_advance ev)
                \<longrightarrow> (\<forall>k \<in> set after. snd k = None)
                  \<and> ra_gekkonet_get_current_input (ctx (ra_gekkonet_update e s)) = None)"
proof -
  define s0 where "s0 = emit (Gekko_network_poll h) s"
  define s2 where "s2 = ra_gekkonet_process_session_events (session_events e)
                          (gekko_network_poll h (pending e) s)"
  have "quiet s0 (gekko_network_poll h (pending e) s)"
    unfolding s0_def gekko_network_poll_def by (rule quiet_receive)
  then have q: "quiet s0 s2"
    unfolding s2_def by (rule quiet_trans [OF _ quiet_session_events])
  have before: "\<forall>k \<in> set (new_calls s0 s2). snd k = ra_gekkonet_get_current_input (ctx s)"
    using quietD(2) [OF q] by (simp add: s0_def)
  from update_calls [OF assms, of e] obtain after where
    "new_calls s (ra_gekkonet_update e s)
       = (Gekko_network_poll h, ra_gekkonet_get_current_input (ctx s)) # new_calls s0 s2
           @ (Gekko_update_session h, None) # after
     \<and> ((\<forall>ev \<in> set (case game_events e of None \<Rightarrow> [] | Some l \<Rightarrow> l). \<not> is_advance ev)
          \<longrightarrow> (\<forall>k \<in> set after. snd k = None)
            \<and> ra_gekkonet_get_current_input (ctx (ra_gekkonet_update e s)) = None)"
    unfolding s0_def s2_def by blast
  with before show ?thesis
    by (intro exI [of _ "new_calls s0 s2"] exI [of _ after]) simp
qed

lemma init_publishes:
  assumes "ra_gekkonet_init ie (Some p) save load s = (True, s')"
  shows "ra_gekkonet_get_current_input (ctx s') = Some (replicate (unat (p_input_size p)) 0)"
  using assms
  by (auto simp: ra_gekkonet_init_def Let_def ctx_zero_def ra_gekkonet_udp_adapter_create_def
      ra_gekkonet_get_current_input_def split: option.splits if_splits prod.splits)

text \<open>
  Claim C6, as amended. In a tick of an active session the first call is the network
  poll, and it sees the current input as the tick found it; so does every call up to the
  fetch of the game events (the receive path, the registrations it makes, the session
  events and their callback). The fetch itself sees no input: the pointer is cleared
  right before it. If no Advance event is among the game events, every later call of the
  tick sees no input either, and none is published when the tick ends. An event other
  than Advance leaves what is published as it is. An Advance event that is carried out,
  with a run-frame callback set, makes one call, the callback, which sees the buffer the
  handler has just filled; that buffer stays published when the handler returns. A
  successful \<^verbatim>\<open>ra_gekkonet_init\<close> publishes the zero-filled buffer.
\<close>

theorem current_input_timeline:
  "(active (ctx s) \<and> session (ctx s) = Some h \<longrightarrow>
      (\<exists>before after.
           new_calls s (ra_gekkonet_update e s)
             = (Gekko_network_poll h, ra_gekkonet_get_current_input (ctx s)) # before
                 @ (Gekko_update_session h, None) # after
           \<and> (\<forall>k \<in> set before. snd k = ra_gekkonet_get_current_input (ctx s))
           \<and> ((\<forall>ev \<in> set (case game_events e of None \<Rightarrow> [] | Some l \<Rightarrow> l). \<not> is_advance ev)
                \<longrightarrow> (\<forall>k \<in> set after. snd k = None)
                  \<and> ra_gekkonet_get_current_input (ctx (ra_gekkonet_update e s)) = None)))
   \<and> (\<not> is_advance ev \<longrightarrow>
        ra_gekkonet_get_current_input (ctx (dispatch_game_event s1 ev))
          = ra_gekkonet_get_current_input (ctx s1))
   \<and> (current_input_buf (ctx s2) \<noteq> None \<and> adv_inputs aev \<noteq> None \<and> run_frame_cb (ctx s2) \<noteq> None \<longrightarrow>
        new_calls s2 (ra_gekkonet_handle_advance aev s2)
          = [(Run_frame_cb, current_input_buf (ctx (ra_gekkonet_handle_advance aev s2)))]
        \<and> current_input_buf (ctx (ra_gekkonet_handle_advance aev s2)) \<noteq> None
        \<and> ra_gekkonet_get_current_input (ctx (ra_gekkonet_handle_advance aev s2))
            = current_input_buf (ctx (ra_gekkonet_handle_advance aev s2)))
   \<and> (ra_gekkonet_init ie (Some p) save load s3 = (True, s4) \<longrightarrow>
        ra_gekkonet_get_current_input (ctx s4) = Some (replicate (unat (p_input_size p)) 0))"
proof -
  have b: "\<not> is_advance ev \<longrightarrow>
        ra_gekkonet_get_current_input (ctx (dispatch_game_event s1 ev))
          = ra_gekkonet_get_current_input (ctx s1)"
    using quietD(3) [OF quiet_dispatch [of ev s1]] by blast
  have c: "new_calls s2 (ra_gekkonet_handle_advance aev s2)
          = [(Run_frame_cb, current_input_buf (ctx (ra_gekkonet_handle_advance aev s2)))]
        \<and> current_input_buf (ctx (ra_gekkonet_handle_advance aev s2)) \<noteq> None
        \<and> ra_gekkonet_get_current_input (ctx (ra_gekkonet_handle_advance aev s2))
            = current_input_buf (ctx (ra_gekkonet_handle_advance aev s2))"
    if "current_input_buf (ctx s2) \<noteq> None" "adv_inputs aev \<noteq> None" "run_frame_cb (ctx s2) \<noteq> None"
    using that handle_advance_publishes [OF that(1,2)]
    by (simp add: new_calls_def handle_advance_trace)
  have a: "active (ctx s) \<and> session (ctx s) = Some h \<longrightarrow>
      (\<exists>before after.
           new_calls s (ra_gekkonet_update e s)
             = (Gekko_network_poll h, ra_gekkonet_get_current_input (ctx s)) # before
                 @ (Gekko_update_session h, None) # after
           \<and> (\<forall>k \<in> set before. snd k = ra_gekkonet_get_current_input (ctx s))
           \<and> ((\<forall>ev \<in> set (case game_events e of None \<Rightarrow> [] | Some l \<Rightarrow> l). \<not> is_advance ev)
                \<longrightarrow> (\<forall>k \<in> set after. snd k = None)
                  \<and> ra_gekkonet_get_current_input (ctx (ra_gekkonet_update e s)) = None))"
    using update_trace [of s h e] by (intro impI) (elim conjE)
  have d: "ra_gekkonet_init ie (Some p) save load s3 = (True, s4) \<longrightarrow>
        ra_gekkonet_get_current_input (ctx s4) = Some (replicate (unat (p_input_size p)) 0)"
    using init_publishes [of ie p save load s3 s4] by (intro impI)
  have c': "current_input_buf (ctx s2) \<noteq> None \<and> adv_inputs aev \<noteq> None \<and> run_frame_cb (ctx s2) \<noteq> None \<longrightarrow>
        new_calls s2 (ra_gekkonet_handle_advance aev s2)
          = [(Run_frame_cb, current_input_buf (ctx (ra_gekkonet_handle_advance aev s2)))]
        \<and> current_input_buf (ctx (ra_gekkonet_handle_advance aev s2)) \<noteq> None
        \<and> ra_gekkonet_get_current_input (ctx (ra_gekkonet_handle_advance aev s2))
            = current_input_buf (ctx (ra_gekkonet_handle_advance aev s2))"
    using c by (intro impI) (elim conjE)
  show ?thesis
    by (intro conjI a b c' d)
qed

text \<open>
  Claim C6 as stated fails: the input is not cleared before the network poll. On the
  session just initialised, the poll and the session events of the first tick see the
  zero-filled buffer that \<^verbatim>\<open>ra_gekkonet_init\<close> published; after a tick that advanced a frame with
  the input \<open>1, 2, 3, 4\<close>, the poll and the session events of the next tick still see
  that input.
\<close>

theorem current_input_stale_counterexample:
  "new_calls demo_running
     (ra_gekkonet_update quiet_tick (ra_gekkonet_update advance_tick demo_running))
   = [(Gekko_network_poll 1, Some [0, 0, 0, 0]), (Sys_recvfrom 3, Some [0, 0, 0, 0]),
      (Gekko_session_events 1, Some [0, 0, 0, 0]), (Gekko_update_session 1, None),
      (Run_frame_cb, Some [1, 2, 3, 4]),
      (Gekko_network_poll 1, Some [1, 2, 3, 4]), (Sys_recvfrom 3, Some [1, 2, 3, 4]),
      (Gekko_session_events 1, Some [1, 2, 3, 4]), (Gekko_update_session 1, None)]"
  by (simp add: demo_running_def ra_gekkonet_set_run_frame_cb_def advance_tick_def quiet_tick_def
      demo_advance_def ra_gekkonet_update_def gekko_network_poll_def ra_gekkonet_udp_receive_def
      ra_gekkonet_process_session_events_def ra_gekkonet_process_game_events_def
      ra_gekkonet_handle_advance_def memcpy_def memset_def Let_def new_calls_def emit_def
      ra_gekkonet_get_current_input_def demo_sys_fields demo_sys_more)

theorem current_input_timeline_witness:
  "active (ctx demo_running) \<and> session (ctx demo_running) = Some 1
   \<and> ra_gekkonet_get_current_input (ctx demo_running) = Some [0, 0, 0, 0]
   \<and> ra_gekkonet_get_current_input (ctx (ra_gekkonet_update quiet_tick demo_running)) = None
   \<and> \<not> is_advance (Some EmptyGameEvent)
   \<and> current_input_buf (ctx demo_running) \<noteq> None
   \<and> adv_inputs demo_advance \<noteq> None
   \<and> run_frame_cb (ctx demo_running) \<noteq> None
   \<and> new_calls demo_running (ra_gekkonet_handle_advance demo_advance demo_running)
       = [(Run_frame_cb, Some [1, 2, 3, 4])]
   \<and> ra_gekkonet_init demo_env (Some demo_params) (Some demo_save) (Some demo_load) (sys_zero ())
       = (True, demo_sys)
   \<and> ra_gekkonet_get_current_input (ctx demo_sys) = Some [0, 0, 0, 0]"
proof -
  have f: "active (ctx demo_running)" "session (ctx demo_running) = Some 1"
    "ra_gekkonet_get_current_input (ctx demo_running) = Some [0, 0, 0, 0]"
    "current_input_buf (ctx demo_running) \<noteq> None" "adv_inputs demo_advance \<noteq> None"
    "run_frame_cb (ctx demo_running) \<noteq> None"
    "ra_gekkonet_get_current_input (ctx demo_sys) = Some [0, 0, 0, 0]"
    by (simp_all add: demo_running_def ra_gekkonet_set_run_frame_cb_def demo_sys_fields
        ra_gekkonet_get_current_input_def demo_advance_def)
  have g: "\<forall>ev \<in> set (case game_events quiet_tick of None \<Rightarrow> [] | Some l \<Rightarrow> l). \<not> is_advance ev"
    by (simp add: quiet_tick_def)
  have buf: "current_input_buf (ctx (ra_gekkonet_handle_advance demo_advance demo_running))
               = Some [1, 2, 3, 4]"
    by (simp add: ra_gekkonet_handle_advance_def demo_running_def ra_gekkonet_set_run_frame_cb_def
        demo_advance_def demo_sys_fields memcpy_def Let_def)
  from current_input_timeline
    [where s = demo_running and h = 1 and e = quiet_tick and ev = "Some EmptyGameEvent"
       and ?s1.0 = demo_running and ?s2.0 = demo_running and aev = demo_advance
       and ie = demo_env and p = demo_params and save = "Some demo_save" and load = "Some demo_load"
       and ?s3.0 = "sys_zero ()" and ?s4.0 = demo_sys]
    f g buf demo_init
  show ?thesis
    by auto
qed

subsection \<open>Auto-discovery on receive\<close>

lemma sender_text_nonempty: "sender_text ip port \<noteq> []"
  by (cases ip) (simp_all add: sender_text_def numeral_eq_Suc)

lemma step_delivered:
  assumes "dg_payload d \<noteq> []" and "dg_ip d = Some ip"
      and "dg_res_ok d" and "dg_addr_ok d" and "dg_data_ok d"
      and "n < g_udp_results_cap s \<or> dg_grow_ok d"
  shows "\<exists>c. udp_receive_step fd d n s =
           (Some \<lparr>res_addr = sender_text ip (dg_port d), res_data = take 2048 (dg_payload d)\<rparr>,
            auto_add_remote (dg_actor d) (sender_text ip (dg_port d))
              ((emit (Sys_recvfrom fd) s)\<lparr>g_udp_results_cap := c\<rparr>))"
proof (cases "n < g_udp_results_cap s")
  case True
  with assms have "udp_receive_step fd d n s =
           (Some \<lparr>res_addr = sender_text ip (dg_port d), res_data = take 2048 (dg_payload d)\<rparr>,
            auto_add_remote (dg_actor d) (sender_text ip (dg_port d))
              ((emit (Sys_recvfrom fd) s)\<lparr>g_udp_results_cap := g_udp_results_cap s\<rparr>))"
    by (simp add: udp_receive_step_def Let_def emit_def)
  then show ?thesis ..
next
  case False
  with assms have "udp_receive_step fd d n s =
           (Some \<lparr>res_addr = sender_text ip (dg_port d), res_data = take 2048 (dg_payload d)\<rparr>,
            auto_add_remote (dg_actor d) (sender_text ip (dg_port d))
              ((emit (Sys_recvfrom fd) s)\<lparr>g_udp_results_cap :=
                 (if g_udp_results_cap s \<noteq> 0 then g_udp_results_cap s * 2 else 8)\<rparr>))"
    by (simp add: udp_receive_step_def Let_def)
  then show ?thesis ..
qed

lemma auto_add_skips:
  assumes "ra_gekkonet_addr_known (ctx s) (Some a)
           \<or> uint (num_players (cfg (ctx s))) \<le> actor_total (ctx s)"
  shows "auto_add_remote e a s = s"
  using assms by (auto simp: auto_add_remote_def actor_total_def split: option.splits)

lemma auto_add_registers:
  assumes "g_udp_adapter s = Some ad" and "owner ad"
      and "\<not> ra_gekkonet_addr_known (ctx s) (Some a)"
      and "actor_total (ctx s) < uint (num_players (cfg (ctx s)))"
  shows "auto_add_remote e a s = snd (ra_gekkonet_add_actor e RemotePlayer (Some a) s)"
  using assms by (simp add: auto_add_remote_def actor_total_def)

lemma add_remote_calls:
  assumes "session (ctx s) = Some h" and "a \<noteq> []" and "copy_ok e"
      and "actor_total (ctx s) < uint (num_players (cfg (ctx s)))"
  shows "trace (snd (ra_gekkonet_add_actor e RemotePlayer (Some a) s)) =
           trace s @ (Gekko_add_actor h RemotePlayer (Some (a @ [CHR 0x00])),
                      ra_gekkonet_get_current_input (ctx s))
             # (if handle e < 0
                then [(Libc_free (Addr_copy (a @ [CHR 0x00])), ra_gekkonet_get_current_input (ctx s))]
                else [])"
  using assms by (simp add: ra_gekkonet_add_actor_def Let_def actor_total_def)

lemma add_remote_counts:
  assumes "session (ctx s) = Some h" and "a \<noteq> []"
      and "actor_total (ctx s) < uint (num_players (cfg (ctx s)))"
  shows "copy_ok e \<and> 0 \<le> handle e \<Longrightarrow>
           remote_actor_count (ctx (snd (ra_gekkonet_add_actor e RemotePlayer (Some a) s)))
             = remote_actor_count (ctx s) + 1
           \<and> ctx (snd (ra_gekkonet_add_actor e RemotePlayer (Some a) s))
               = ra_gekkonet_remember_addr (remember e)
                   ((ctx s)\<lparr>remote_actor_count := remote_actor_count (ctx s) + 1\<rparr>) (Some a)"
    and "\<not> copy_ok e \<or> handle e < 0 \<Longrightarrow>
           ctx (snd (ra_gekkonet_add_actor e RemotePlayer (Some a) s)) = ctx s"
  using assms by (auto simp: ra_gekkonet_add_actor_def Let_def actor_total_def remember_keeps)

lemma remember_known:
  assumes "addrs_wf c" and "realloc_ok e" and "malloc_ok e"
  shows "ra_gekkonet_addr_known (ra_gekkonet_remember_addr e c (Some a)) (Some a)"
  using assms by (simp add: known_registry registry_remember)

lemma addrs_wf_count [simp]: "addrs_wf (c\<lparr>remote_actor_count := n\<rparr>) = addrs_wf c"
  by (simp add: addrs_wf_def)

lemma step_auto_discovery:
  assumes ad: "g_udp_adapter s = Some ad" "owner ad" and se: "session (ctx s) = Some h"
      and dg: "dg_payload d \<noteq> []" "dg_ip d = Some ip" "dg_res_ok d" "dg_addr_ok d" "dg_data_ok d"
              "n < g_udp_results_cap s \<or> dg_grow_ok d"
  shows "fst (udp_receive_step fd d n s)
           = Some \<lparr>res_addr = sender_text ip (dg_port d), res_data = take 2048 (dg_payload d)\<rparr>"
    and "\<not> ra_gekkonet_addr_known (ctx s) (Some (sender_text ip (dg_port d)))
         \<and> actor_total (ctx s) < uint (num_players (cfg (ctx s))) \<Longrightarrow>
           (copy_ok (dg_actor d) \<longrightarrow>
              new_calls s (snd (udp_receive_step fd d n s))
                = (Sys_recvfrom fd, ra_gekkonet_get_current_input (ctx s))
                  # (Gekko_add_actor h RemotePlayer (Some (sender_text ip (dg_port d) @ [CHR 0x00])),
                     ra_gekkonet_get_current_input (ctx s))
                  # (if handle (dg_actor d) < 0
                     then [(Libc_free (Addr_copy (sender_text ip (dg_port d) @ [CHR 0x00])),
                            ra_gekkonet_get_current_input (ctx s))]
                     else []))
           \<and> (copy_ok (dg_actor d) \<and> 0 \<le> handle (dg_actor d) \<longrightarrow>
                remote_actor_count (ctx (snd (udp_receive_step fd d n s))) = remote_actor_count (ctx s) + 1
                \<and> (addrs_wf (ctx s) \<and> realloc_ok (remember (dg_actor d)) \<and> malloc_ok (remember (dg_actor d))
                     \<longrightarrow> ra_gekkonet_addr_known (ctx (snd (udp_receive_step fd d n s)))
                           (Some (sender_text ip (dg_port d)))))
           \<and> (\<not> copy_ok (dg_actor d) \<or> handle (dg_actor d) < 0 \<longrightarrow>
                ctx (snd (udp_receive_step fd d n s)) = ctx s)"
    and "ra_gekkonet_addr_known (ctx s) (Some (sender_text ip (dg_port d)))
         \<or> uint (num_players (cfg (ctx s))) \<le> actor_total (ctx s) \<Longrightarrow>
           ctx (snd (udp_receive_step fd d n s)) = ctx s
           \<and> new_calls s (snd (udp_receive_step fd d n s))
               = [(Sys_recvfrom fd, ra_gekkonet_get_current_input (ctx s))]"
proof -
  let ?a = "sender_text ip (dg_port d)"
  from step_delivered [OF dg, of fd] obtain c where
    st: "udp_receive_step fd d n s =
           (Some \<lparr>res_addr = ?a, res_data = take 2048 (dg_payload d)\<rparr>,
            auto_add_remote (dg_actor d) ?a ((emit (Sys_recvfrom fd) s)\<lparr>g_udp_results_cap := c\<rparr>))"
    by blast
  define s1 where "s1 = (emit (Sys_recvfrom fd) s)\<lparr>g_udp_results_cap := c\<rparr>"
  have s1: "ctx s1 = ctx s" "g_udp_adapter s1 = Some ad"
    "trace s1 = trace s @ [(Sys_recvfrom fd, ra_gekkonet_get_current_input (ctx s))]"
    by (simp_all add: s1_def ad)
  from st show "fst (udp_receive_step fd d n s)
           = Some \<lparr>res_addr = ?a, res_data = take 2048 (dg_payload d)\<rparr>"
    by simp
  have snd_eq: "snd (udp_receive_step fd d n s) = auto_add_remote (dg_actor d) ?a s1"
    by (simp add: st s1_def)
  {
    assume u: "\<not> ra_gekkonet_addr_known (ctx s) (Some ?a)
               \<and> actor_total (ctx s) < uint (num_players (cfg (ctx s)))"
    then have reg: "auto_add_remote (dg_actor d) ?a s1
                      = snd (ra_gekkonet_add_actor (dg_actor d) RemotePlayer (Some ?a) s1)"
      using auto_add_registers [of s1 ad ?a "dg_actor d"] s1 ad by simp
    have se1: "session (ctx s1) = Some h"
      by (simp add: s1 se)
    have below: "actor_total (ctx s1) < uint (num_players (cfg (ctx s1)))"
      using u by (simp add: s1)
    have calls: "new_calls s (snd (udp_receive_step fd d n s))
                = (Sys_recvfrom fd, ra_gekkonet_get_current_input (ctx s))
                  # (Gekko_add_actor h RemotePlayer (Some (?a @ [CHR 0x00])),
                     ra_gekkonet_get_current_input (ctx s))
                  # (if handle (dg_actor d) < 0
                     then [(Libc_free (Addr_copy (?a @ [CHR 0x00])),
                            ra_gekkonet_get_current_input (ctx s))]
                     else [])"
      if "copy_ok (dg_actor d)"
      using add_remote_calls [OF se1 sender_text_nonempty [of ip "dg_port d"] that below]
      by (simp add: snd_eq reg new_calls_def s1)
    have ok: "remote_actor_count (ctx (snd (udp_receive_step fd d n s))) = remote_actor_count (ctx s) + 1
                \<and> (addrs_wf (ctx s) \<and> realloc_ok (remember (dg_actor d)) \<and> malloc_ok (remember (dg_actor d))
                     \<longrightarrow> ra_gekkonet_addr_known (ctx (snd (udp_receive_step fd d n s))) (Some ?a))"
      if "copy_ok (dg_actor d) \<and> 0 \<le> handle (dg_actor d)"
      using add_remote_counts(1) [OF se1 sender_text_nonempty [of ip "dg_port d"] below that]
      by (simp add: snd_eq reg s1 remember_known remember_keeps)
    have bad: "ctx (snd (udp_receive_step fd d n s)) = ctx s"
      if "\<not> copy_ok (dg_actor d) \<or> handle (dg_actor d) < 0"
      using add_remote_counts(2) [OF se1 sender_text_nonempty [of ip "dg_port d"] below that]
      by (simp add: snd_eq reg s1)
    from calls ok bad
    show "(copy_ok (dg_actor d) \<longrightarrow>
              new_calls s (snd (udp_receive_step fd d n s))
                = (Sys_recvfrom fd, ra_gekkonet_get_current_input (ctx s))
                  # (Gekko_add_actor h RemotePlayer (Some (?a @ [CHR 0x00])),
                     ra_gekkonet_get_current_input (ctx s))
                  # (if handle (dg_actor d) < 0
                     then [(Libc_free (Addr_copy (?a @ [CHR 0x00])),
                            ra_gekkonet_get_current_input (ctx s))]
                     else []))
           \<and> (copy_ok (dg_actor d) \<and> 0 \<le> handle (dg_actor d) \<longrightarrow>
                remote_actor_count (ctx (snd (udp_receive_step fd d n s))) = remote_actor_count (ctx s) + 1
                \<and> (addrs_wf (ctx s) \<and> realloc_ok (remember (dg_actor d)) \<and> malloc_ok (remember (dg_actor d))
                     \<longrightarrow> ra_gekkonet_addr_known (ctx (snd (udp_receive_step fd d n s))) (Some ?a)))
           \<and> (\<not> copy_ok (dg_actor d) \<or> handle (dg_actor d) < 0 \<longrightarrow>
                ctx (snd (udp_receive_step fd d n s)) = ctx s)"
      by (intro conjI impI) blast+
  }
  {
    assume k: "ra_gekkonet_addr_known (ctx s) (Some ?a)
               \<or> uint (num_players (cfg (ctx s))) \<le> actor_total (ctx s)"
    then have "auto_add_remote (dg_actor d) ?a s1 = s1"
      using auto_add_skips [of s1 ?a "dg_actor d"] by (simp add: s1)
    then show "ctx (snd (udp_receive_step fd d n s)) = ctx s
           \<and> new_calls s (snd (udp_receive_step fd d n s))
               = [(Sys_recvfrom fd, ra_gekkonet_get_current_input (ctx s))]"
      by (simp add: snd_eq s1 new_calls_def)
  }
qed

lemma session_events_calls:
  assumes "session (ctx s) = Some h"
  shows "\<exists>ys. trace (ra_gekkonet_process_session_events evs s)
                 = trace s @ (Gekko_session_events h, ra_gekkonet_get_current_input (ctx s)) # ys"
proof -
  have "\<exists>ys. trace (foldl forward_session_event (emit (Gekko_session_events h) s) l)
                = trace s @ (Gekko_session_events h, ra_gekkonet_get_current_input (ctx s)) # ys" for l
    using quietD(1) [OF quiet_forward_all [of "emit (Gekko_session_events h) s" l]] by simp
  with assms show ?thesis
    by (simp add: ra_gekkonet_process_session_events_def Let_def split: option.splits)
qed

lemma update_receive_first:
  assumes "active (ctx s)" and "session (ctx s) = Some h"
  shows "\<exists>later.
           new_calls s (ra_gekkonet_update e s)
             = (Gekko_network_poll h, ra_gekkonet_get_current_input (ctx s))
                 # new_calls (emit (Gekko_network_poll h) s)
                     (snd (ra_gekkonet_udp_receive (pending e) (emit (Gekko_network_poll h) s)))
                 @ later
           \<and> (Gekko_session_events h, ra_gekkonet_get_current_input (ctx s)) \<in> set later
           \<and> (Gekko_update_session h, None) \<in> set later"
proof -
  define s0 where "s0 = emit (Gekko_network_poll h) s"
  define s1 where "s1 = snd (ra_gekkonet_udp_receive (pending e) s0)"
  define s2 where "s2 = ra_gekkonet_process_session_events (session_events e) s1"
  have p: "gekko_network_poll h (pending e) s = s1"
    by (simp add: gekko_network_poll_def s1_def s0_def)
  have q1: "quiet s0 s1"
    unfolding s1_def by (rule quiet_receive)
  have "session (ctx s1) = Some h"
    using session_poll [of h "pending e" s] assms(2) by (simp add: p)
  from session_events_calls [OF this, of "session_events e"] obtain ys where
    "trace s2 = trace s1 @ (Gekko_session_events h, ra_gekkonet_get_current_input (ctx s1)) # ys"
    unfolding s2_def by blast
  then have t2: "trace s2 = trace s0 @ new_calls s0 s1
                   @ (Gekko_session_events h, ra_gekkonet_get_current_input (ctx s)) # ys"
    using quietD(1) [OF q1] quietD(3) [OF q1] by (simp add: s0_def)
  then have n2: "new_calls s0 s2
                   = new_calls s0 s1 @ (Gekko_session_events h, ra_gekkonet_get_current_input (ctx s)) # ys"
    by (simp add: new_calls_def [of s0 s2])
  from update_calls [OF assms, of e] obtain after where
    "new_calls s (ra_gekkonet_update e s)
       = (Gekko_network_poll h, ra_gekkonet_get_current_input (ctx s)) # new_calls s0 s2
           @ (Gekko_update_session h, None) # after"
    unfolding s0_def [symmetric] p s2_def [symmetric] by blast
  then have "new_calls s (ra_gekkonet_update e s)
       = (Gekko_network_poll h, ra_gekkonet_get_current_input (ctx s)) # new_calls s0 s1
           @ ((Gekko_session_events h, ra_gekkonet_get_current_input (ctx s)) # ys
               @ (Gekko_update_session h, None) # after)"
    by (simp add: n2)
  then show ?thesis
    unfolding s0_def [symmetric] s1_def [symmetric]
    by (intro exI [of _ "(Gekko_session_events h, ra_gekkonet_get_current_input (ctx s)) # ys
               @ (Gekko_update_session h, None) # after"]) simp
qed


lemma step_stored:
  assumes "udp_receive_step fd d n s = (Some r, s')"
  shows "dg_payload d \<noteq> [] \<and> (\<exists>ip. dg_ip d = Some ip) \<and> dg_res_ok d \<and> dg_addr_ok d
         \<and> dg_data_ok d \<and> (n < g_udp_results_cap s \<or> dg_grow_ok d)"
  using assms
  by (auto simp: udp_receive_step_def Let_def split: if_splits option.splits)

lemma step_delivery_independent:
  "fst (udp_receive_step fd (d\<lparr>dg_actor := e\<rparr>) n s) = fst (udp_receive_step fd d n s)"
  by (simp add: udp_receive_step_def Let_def split: option.splits)

lemma adapter_add_actor: "g_udp_adapter (snd (ra_gekkonet_add_actor e t a s)) = g_udp_adapter s"
  by (simp add: ra_gekkonet_add_actor_def Let_def split: option.splits)

lemma adapter_step: "g_udp_adapter (snd (udp_receive_step fd d n s)) = g_udp_adapter s"
  by (simp add: udp_receive_step_def Let_def auto_add_remote_def adapter_add_actor
      split: option.splits)

lemma calls_add_actor:
  "list_all (\<lambda>k. receive_call (fst k)) (new_calls s (snd (ra_gekkonet_add_actor e t a s)))"
  by (simp add: ra_gekkonet_add_actor_def Let_def new_calls_def split: option.splits)

lemma calls_auto_add:
  "list_all (\<lambda>k. receive_call (fst k)) (new_calls s (auto_add_remote e a s))"
  by (simp add: auto_add_remote_def calls_add_actor split: option.splits)

lemma new_calls_trans:
  assumes "quiet s s'" and "quiet s' s''"
  shows "new_calls s s'' = new_calls s s' @ new_calls s' s''"
  using quietD(1) [OF assms(1)] quietD(1) [OF assms(2)]
  by (simp add: new_calls_def [of s s''])

lemma calls_step:
  "list_all (\<lambda>k. receive_call (fst k)) (new_calls s (snd (udp_receive_step fd d n s)))"
proof -
  have e: "quiet s (emit (Sys_recvfrom fd) s)"
    by (rule quiet_emit)
  have c: "quiet s ((emit (Sys_recvfrom fd) s)\<lparr>g_udp_results_cap := m\<rparr>)" for m
    by (rule quiet_cap [OF e])
  have n: "new_calls s ((emit (Sys_recvfrom fd) s)\<lparr>g_udp_results_cap := m\<rparr>)
             = [(Sys_recvfrom fd, ra_gekkonet_get_current_input (ctx s))]" for m
    by (simp add: new_calls_def)
  have n0: "new_calls s (emit (Sys_recvfrom fd) s)
             = [(Sys_recvfrom fd, ra_gekkonet_get_current_input (ctx s))]"
    by (simp add: new_calls_def)
  have a: "list_all (\<lambda>k. receive_call (fst k)) (new_calls s (auto_add_remote ae ab s'))"
    if "quiet s s'" "list_all (\<lambda>k. receive_call (fst k)) (new_calls s s')" for ae ab s'
    using new_calls_trans [OF that(1) quiet_auto_add [of s' ae ab]] that(2) calls_auto_add [of s' ae ab]
    by simp
  show ?thesis
    by (simp add: udp_receive_step_def Let_def e c n n0 a split: option.splits)
qed

lemma turn_at_facts:
  assumes "turn_at fd ds i acc s = Some (n, sd)"
  shows "i < length ds \<and> n = length acc + i \<and> quiet s sd
         \<and> session (ctx sd) = session (ctx s) \<and> g_udp_adapter sd = g_udp_adapter s
         \<and> list_all (\<lambda>k. receive_call (fst k)) (new_calls s sd)
         \<and> (\<exists>acc'. length acc' = n
               \<and> udp_receive_loop fd ds acc s = udp_receive_loop fd (drop i ds) acc' sd)"
  using assms
proof (induction ds arbitrary: i acc s)
  case Nil
  then show ?case by simp
next
  case (Cons d ds)
  show ?case
  proof (cases i)
    case 0
    with Cons.prems have "n = length acc" "sd = s"
      by simp_all
    with 0 show ?thesis
      by (auto simp: quiet_refl)
  next
    case (Suc j)
    obtain r s' where st: "udp_receive_step fd d (length acc) s = (r, s')"
      by (cases "udp_receive_step fd d (length acc) s")
    with Cons.prems Suc obtain x where r: "r = Some x"
      and t: "turn_at fd ds j (acc @ [x]) s' = Some (n, sd)"
      by (cases r) simp_all
    note ih = Cons.IH [OF t]
    have q: "quiet s s'"
      using quiet_step [of s fd d "length acc"] st by simp
    have se: "session (ctx s') = session (ctx s)"
      using session_step [of fd d "length acc" s] st by simp
    have ad: "g_udp_adapter s' = g_udp_adapter s"
      using adapter_step [of fd d "length acc" s] st by simp
    have ca: "list_all (\<lambda>k. receive_call (fst k)) (new_calls s s')"
      using calls_step [of s fd d "length acc"] st by simp
    from ih have q2: "quiet s' sd"
      by simp
    have nc: "new_calls s sd = new_calls s s' @ new_calls s' sd"
      by (rule new_calls_trans [OF q q2])
    from ih obtain acc' where acc': "length acc' = n"
      "udp_receive_loop fd ds (acc @ [x]) s' = udp_receive_loop fd (drop j ds) acc' sd"
      by blast
    have loop: "udp_receive_loop fd (d # ds) acc s = udp_receive_loop fd (drop i (d # ds)) acc' sd"
      using st r acc'(2) Suc by simp
    from ih se ad ca nc Suc quiet_trans [OF q q2] acc'(1) loop show ?thesis
      by (intro conjI exI [of _ acc']) simp_all
  qed
qed


lemma update_registers:
  assumes act: "active (ctx s)" and se: "session (ctx s) = Some h"
      and ad: "g_udp_adapter s = Some ad" "owner ad"
      and at: "turn_at (sockfd ad) (pending e) i [] (emit (Gekko_network_poll h) s) = Some (n, sd)"
      and st: "udp_receive_step (sockfd ad) (pending e ! i) n sd = (Some r, s')"
      and un: "\<not> ra_gekkonet_addr_known (ctx sd) (Some (res_addr r))"
              "actor_total (ctx sd) < uint (num_players (cfg (ctx sd)))"
      and cp: "copy_ok (dg_actor (pending e ! i))"
  shows "\<exists>pre post.
           new_calls s (ra_gekkonet_update e s)
             = (Gekko_network_poll h, ra_gekkonet_get_current_input (ctx s)) # pre
               @ (Sys_recvfrom (sockfd ad), ra_gekkonet_get_current_input (ctx s))
               # (Gekko_add_actor h RemotePlayer (Some (res_addr r @ [CHR 0x00])),
                  ra_gekkonet_get_current_input (ctx s))
               # post
           \<and> (\<forall>k \<in> set pre. receive_call (fst k))
           \<and> (Gekko_session_events h, ra_gekkonet_get_current_input (ctx s)) \<in> set post
           \<and> (Gekko_update_session h, None) \<in> set post"
proof -
  define s0 where "s0 = emit (Gekko_network_poll h) s"
  define d where "d = pending e ! i"
  define fd where "fd = sockfd ad"
  let ?cur = "ra_gekkonet_get_current_input (ctx s)"
  note tf = turn_at_facts [OF at [folded s0_def fd_def]]
  from tf have i: "i < length (pending e)" and q0: "quiet s0 sd"
    and sed: "session (ctx sd) = Some h" and add: "g_udp_adapter sd = Some ad"
    and pre: "list_all (\<lambda>k. receive_call (fst k)) (new_calls s0 sd)"
    by (simp_all add: s0_def se ad)
  from tf obtain acc' where acc': "length acc' = n"
    "udp_receive_loop fd (pending e) [] s0 = udp_receive_loop fd (drop i (pending e)) acc' sd"
    by blast
  have dr: "drop i (pending e) = d # drop (Suc i) (pending e)"
    using i by (simp add: d_def Cons_nth_drop_Suc)
  define sf where "sf = snd (udp_receive_loop fd (drop (Suc i) (pending e)) (acc' @ [r]) s')"
  have st': "udp_receive_step fd d n sd = (Some r, s')"
    using st by (simp add: fd_def d_def)
  have fin: "snd (ra_gekkonet_udp_receive (pending e) s0) = sf"
    using acc' dr st' by (simp add: ra_gekkonet_udp_receive_def s0_def ad sf_def fd_def [symmetric])
  have q1: "quiet sd s'"
    using quiet_step [of sd fd d n] st' by simp
  have q2: "quiet s' sf"
    unfolding sf_def by (rule quiet_loop)
  have cur: "ra_gekkonet_get_current_input (ctx sd) = ?cur"
    using quietD(3) [OF q0] by (simp add: s0_def)
  from step_stored [OF st'] obtain ip where
    dg: "dg_payload d \<noteq> []" "dg_ip d = Some ip" "dg_res_ok d" "dg_addr_ok d" "dg_data_ok d"
        "n < g_udp_results_cap sd \<or> dg_grow_ok d"
    by blast
  note sa = step_auto_discovery [OF add ad(2) sed dg, of fd]
  from sa(1) st' have ra: "res_addr r = sender_text ip (dg_port d)"
    by auto
  have un': "\<not> ra_gekkonet_addr_known (ctx sd) (Some (sender_text ip (dg_port d)))
             \<and> actor_total (ctx sd) < uint (num_players (cfg (ctx sd)))"
    using un ra by simp
  have s'eq: "snd (udp_receive_step fd d n sd) = s'"
    by (simp add: st')
  have cp': "copy_ok (dg_actor d)"
    using cp by (simp add: d_def)
  from sa(2) [OF un', unfolded s'eq cur] cp' have calls: "new_calls sd s'
      = (Sys_recvfrom fd, ?cur)
        # (Gekko_add_actor h RemotePlayer (Some (res_addr r @ [CHR 0x00])), ?cur)
        # (if handle (dg_actor d) < 0
           then [(Libc_free (Addr_copy (res_addr r @ [CHR 0x00])), ?cur)]
           else [])"
    unfolding ra by blast
  have all: "new_calls s0 sf = new_calls s0 sd @ new_calls sd s' @ new_calls s' sf"
    using new_calls_trans [OF q0 quiet_trans [OF q1 q2]] new_calls_trans [OF q1 q2] by simp
  from update_receive_first [OF act se, of e] obtain later where
    u: "new_calls s (ra_gekkonet_update e s) = (Gekko_network_poll h, ?cur) # new_calls s0 sf @ later"
    and l: "(Gekko_session_events h, ?cur) \<in> set later" "(Gekko_update_session h, None) \<in> set later"
    unfolding s0_def [symmetric] fin by blast
  define post where "post = (if handle (dg_actor d) < 0
           then [(Libc_free (Addr_copy (res_addr r @ [CHR 0x00])), ?cur)]
           else []) @ new_calls s' sf @ later"
  have "new_calls s (ra_gekkonet_update e s)
          = (Gekko_network_poll h, ?cur) # new_calls s0 sd
            @ (Sys_recvfrom fd, ?cur)
            # (Gekko_add_actor h RemotePlayer (Some (res_addr r @ [CHR 0x00])), ?cur) # post"
    by (simp add: u all calls post_def)
  moreover have "\<forall>k \<in> set (new_calls s0 sd). receive_call (fst k)"
    using pre by (simp add: list_all_iff)
  moreover have "(Gekko_session_events h, ?cur) \<in> set post" "(Gekko_update_session h, None) \<in> set post"
    using l by (simp_all add: post_def)
  ultimately show ?thesis
    unfolding fd_def by (intro exI [of _ "new_calls s0 sd"] exI [of _ post]) simp
qed

lemma step_stored_iff:
  "(fst (udp_receive_step fd d n s) \<noteq> None)
     = (dg_payload d \<noteq> [] \<and> dg_ip d \<noteq> None \<and> dg_res_ok d \<and> dg_addr_ok d \<and> dg_data_ok d
        \<and> (n < g_udp_results_cap s \<or> dg_grow_ok d))"
  by (auto simp: udp_receive_step_def Let_def split: option.splits)

lemma step_dropped:
  assumes "fst (udp_receive_step fd d n s) = None"
  shows "ctx (snd (udp_receive_step fd d n s)) = ctx s
         \<and> new_calls s (snd (udp_receive_step fd d n s))
             = [(Sys_recvfrom fd, ra_gekkonet_get_current_input (ctx s))]"
  using assms
  by (auto simp: udp_receive_step_def Let_def new_calls_def split: option.splits if_splits)

text \<open>
  Claim C8. A turn of the receive loop stores the datagram it reads exactly if the payload
  is not empty, the result array has room or can grow, the sender can be printed and the
  three allocations of the result succeed; a turn that does not store it calls \<^verbatim>\<open>recvfrom\<close>
  only, leaves the context alone, and ends the loop. Take a turn that stores a datagram,
  while the adapter has its owner and the session its engine handle. The result holds the
  payload and the text of the sender. If that address is not known and the local and
  remote actors together are below \<open>num_players\<close>, the loop asks the session to register
  it: the calls of the turn are the \<^verbatim>\<open>recvfrom\<close> and the engine's \<^verbatim>\<open>gekko_add_actor\<close> for a
  \<open>RemotePlayer\<close> with that address (followed by the \<^verbatim>\<open>free\<close> of the copy if the engine
  refuses); when the engine accepts, the remote count goes up by one and the address is
  known afterwards; when the registration fails, the context is as before. If the address
  is known or the capacity is reached, the turn calls \<^verbatim>\<open>recvfrom\<close> only and leaves the
  context alone. Whether a datagram is stored does not depend on what its registration
  meets. And in a tick of an active session: if the loop comes to the datagram at
  position \<open>i\<close> of those waiting and stores it, its sender is not known at that moment,
  the actors are below \<open>num_players\<close> and the copy of the address is allocated, then the
  calls of the tick are the network poll, then calls of the receive path, then the
  \<^verbatim>\<open>recvfrom\<close> that reads the datagram and the \<^verbatim>\<open>gekko_add_actor\<close> for its sender, and
  only after these the fetch of the session events and the \<^verbatim>\<open>gekko_update_session\<close> that
  fetches the game events.
\<close>

theorem udp_receive_auto_discovery:
  "(g_udp_adapter s = Some ad \<and> owner ad \<and> session (ctx s) = Some h
      \<and> udp_receive_step fd d n s = (Some r, s')
    \<longrightarrow>
      res_data r = take 2048 (dg_payload d)
      \<and> (\<exists>ip. dg_ip d = Some ip \<and> res_addr r = sender_text ip (dg_port d))
      \<and> (\<not> ra_gekkonet_addr_known (ctx s) (Some (res_addr r))
           \<and> actor_total (ctx s) < uint (num_players (cfg (ctx s)))
         \<longrightarrow>
           (copy_ok (dg_actor d) \<longrightarrow>
              new_calls s s'
                = (Sys_recvfrom fd, ra_gekkonet_get_current_input (ctx s))
                  # (Gekko_add_actor h RemotePlayer (Some (res_addr r @ [CHR 0x00])),
                     ra_gekkonet_get_current_input (ctx s))
                  # (if handle (dg_actor d) < 0
                     then [(Libc_free (Addr_copy (res_addr r @ [CHR 0x00])),
                            ra_gekkonet_get_current_input (ctx s))]
                     else []))
           \<and> (copy_ok (dg_actor d) \<and> 0 \<le> handle (dg_actor d) \<longrightarrow>
                remote_actor_count (ctx s') = remote_actor_count (ctx s) + 1
                \<and> (addrs_wf (ctx s) \<and> realloc_ok (remember (dg_actor d)) \<and> malloc_ok (remember (dg_actor d))
                     \<longrightarrow> ra_gekkonet_addr_known (ctx s') (Some (res_addr r))))
           \<and> (\<not> copy_ok (dg_actor d) \<or> handle (dg_actor d) < 0 \<longrightarrow> ctx s' = ctx s))
      \<and> (ra_gekkonet_addr_known (ctx s) (Some (res_addr r))
           \<or> uint (num_players (cfg (ctx s))) \<le> actor_total (ctx s)
         \<longrightarrow>
           ctx s' = ctx s
           \<and> new_calls s s' = [(Sys_recvfrom fd, ra_gekkonet_get_current_input (ctx s))]))
   \<and> ((fst (udp_receive_step fd3 d3 n3 s3) \<noteq> None)
        = (dg_payload d3 \<noteq> [] \<and> dg_ip d3 \<noteq> None \<and> dg_res_ok d3 \<and> dg_addr_ok d3 \<and> dg_data_ok d3
           \<and> (n3 < g_udp_results_cap s3 \<or> dg_grow_ok d3)))
   \<and> (fst (udp_receive_step fd3 d3 n3 s3) = None
    \<longrightarrow>
      ctx (snd (udp_receive_step fd3 d3 n3 s3)) = ctx s3
      \<and> new_calls s3 (snd (udp_receive_step fd3 d3 n3 s3))
          = [(Sys_recvfrom fd3, ra_gekkonet_get_current_input (ctx s3))])
   \<and> fst (udp_receive_step fd1 (d1\<lparr>dg_actor := e1\<rparr>) n1 s1) = fst (udp_receive_step fd1 d1 n1 s1)
   \<and> (active (ctx s2) \<and> session (ctx s2) = Some h2 \<and> g_udp_adapter s2 = Some ad2 \<and> owner ad2
      \<and> turn_at (sockfd ad2) (pending e) i [] (emit (Gekko_network_poll h2) s2) = Some (n2, sd)
      \<and> udp_receive_step (sockfd ad2) (pending e ! i) n2 sd = (Some r2, sd')
      \<and> \<not> ra_gekkonet_addr_known (ctx sd) (Some (res_addr r2))
      \<and> actor_total (ctx sd) < uint (num_players (cfg (ctx sd)))
      \<and> copy_ok (dg_actor (pending e ! i))
    \<longrightarrow>
      (\<exists>pre post.
           new_calls s2 (ra_gekkonet_update e s2)
             = (Gekko_network_poll h2, ra_gekkonet_get_current_input (ctx s2)) # pre
               @ (Sys_recvfrom (sockfd ad2), ra_gekkonet_get_current_input (ctx s2))
               # (Gekko_add_actor h2 RemotePlayer (Some (res_addr r2 @ [CHR 0x00])),
                  ra_gekkonet_get_current_input (ctx s2))
               # post
           \<and> (\<forall>k \<in> set pre. receive_call (fst k))
           \<and> (Gekko_session_events h2, ra_gekkonet_get_current_input (ctx s2)) \<in> set post
           \<and> (Gekko_update_session h2, None) \<in> set post))"
proof -
  have step: "res_data r = take 2048 (dg_payload d)
      \<and> (\<exists>ip. dg_ip d = Some ip \<and> res_addr r = sender_text ip (dg_port d))
      \<and> (\<not> ra_gekkonet_addr_known (ctx s) (Some (res_addr r))
           \<and> actor_total (ctx s) < uint (num_players (cfg (ctx s)))
         \<longrightarrow>
           (copy_ok (dg_actor d) \<longrightarrow>
              new_calls s s'
                = (Sys_recvfrom fd, ra_gekkonet_get_current_input (ctx s))
                  # (Gekko_add_actor h RemotePlayer (Some (res_addr r @ [CHR 0x00])),
                     ra_gekkonet_get_current_input (ctx s))
                  # (if handle (dg_actor d) < 0
                     then [(Libc_free (Addr_copy (res_addr r @ [CHR 0x00])),
                            ra_gekkonet_get_current_input (ctx s))]
                     else []))
           \<and> (copy_ok (dg_actor d) \<and> 0 \<le> handle (dg_actor d) \<longrightarrow>
                remote_actor_count (ctx s') = remote_actor_count (ctx s) + 1
                \<and> (addrs_wf (ctx s) \<and> realloc_ok (remember (dg_actor d)) \<and> malloc_ok (remember (dg_actor d))
                     \<longrightarrow> ra_gekkonet_addr_known (ctx s') (Some (res_addr r))))
           \<and> (\<not> copy_ok (dg_actor d) \<or> handle (dg_actor d) < 0 \<longrightarrow> ctx s' = ctx s))
      \<and> (ra_gekkonet_addr_known (ctx s) (Some (res_addr r))
           \<or> uint (num_players (cfg (ctx s))) \<le> actor_total (ctx s)
         \<longrightarrow>
           ctx s' = ctx s
           \<and> new_calls s s' = [(Sys_recvfrom fd, ra_gekkonet_get_current_input (ctx s))])"
    if ad: "g_udp_adapter s = Some ad" "owner ad" and se: "session (ctx s) = Some h"
      and st: "udp_receive_step fd d n s = (Some r, s')"
  proof -
    from step_stored [OF st] obtain ip where
      dg: "dg_payload d \<noteq> []" "dg_ip d = Some ip" "dg_res_ok d" "dg_addr_ok d" "dg_data_ok d"
          "n < g_udp_results_cap s \<or> dg_grow_ok d"
      by blast
    note sa = step_auto_discovery [OF ad se dg, of fd]
    from sa(1) st have r: "r = \<lparr>res_addr = sender_text ip (dg_port d),
                                 res_data = take 2048 (dg_payload d)\<rparr>"
      by simp
    then have ra: "res_addr r = sender_text ip (dg_port d)"
      and rd: "res_data r = take 2048 (dg_payload d)"
      by simp_all
    have s': "snd (udp_receive_step fd d n s) = s'"
      by (simp add: st)
    from sa(2) sa(3) dg(2) show ?thesis
      unfolding s' ra [symmetric] using rd ra by blast
  qed
  have tick: "\<exists>pre post.
           new_calls s2 (ra_gekkonet_update e s2)
             = (Gekko_network_poll h2, ra_gekkonet_get_current_input (ctx s2)) # pre
               @ (Sys_recvfrom (sockfd ad2), ra_gekkonet_get_current_input (ctx s2))
               # (Gekko_add_actor h2 RemotePlayer (Some (res_addr r2 @ [CHR 0x00])),
                  ra_gekkonet_get_current_input (ctx s2))
               # post
           \<and> (\<forall>k \<in> set pre. receive_call (fst k))
           \<and> (Gekko_session_events h2, ra_gekkonet_get_current_input (ctx s2)) \<in> set post
           \<and> (Gekko_update_session h2, None) \<in> set post"
    if "active (ctx s2)" "session (ctx s2) = Some h2" "g_udp_adapter s2 = Some ad2" "owner ad2"
       "turn_at (sockfd ad2) (pending e) i [] (emit (Gekko_network_poll h2) s2) = Some (n2, sd)"
       "udp_receive_step (sockfd ad2) (pending e ! i) n2 sd = (Some r2, sd')"
       "\<not> ra_gekkonet_addr_known (ctx sd) (Some (res_addr r2))"
       "actor_total (ctx sd) < uint (num_players (cfg (ctx sd)))"
       "copy_ok (dg_actor (pending e ! i))"
    using update_registers [OF that] .
  show ?thesis
  proof (intro conjI)
    show "fst (udp_receive_step fd1 (d1\<lparr>dg_actor := e1\<rparr>) n1 s1) = fst (udp_receive_step fd1 d1 n1 s1)"
      by (rule step_delivery_independent)
    show "(fst (udp_receive_step fd3 d3 n3 s3) \<noteq> None)
        = (dg_payload d3 \<noteq> [] \<and> dg_ip d3 \<noteq> None \<and> dg_res_ok d3 \<and> dg_addr_ok d3 \<and> dg_data_ok d3
           \<and> (n3 < g_udp_results_cap s3 \<or> dg_grow_ok d3))"
      by (rule step_stored_iff)
    show "fst (udp_receive_step fd3 d3 n3 s3) = None
    \<longrightarrow>
      ctx (snd (udp_receive_step fd3 d3 n3 s3)) = ctx s3
      \<and> new_calls s3 (snd (udp_receive_step fd3 d3 n3 s3))
          = [(Sys_recvfrom fd3, ra_gekkonet_get_current_input (ctx s3))]"
      using step_dropped [of fd3 d3 n3 s3] by blast
  qed (intro impI, elim conjE, rule step, assumption+,
       intro impI, elim conjE, rule tick, assumption+)
qed


lemma demo_sender: "sender_text ''10.0.0.2'' 7000 = ''10.0.0.2:7000''"
  by (simp add: sender_text_def dec_str.simps)

lemma demo_addrs_wf: "addrs_wf (ctx demo_sys)"
  by (simp add: addrs_wf_def demo_sys_def ra_gekkonet_init_def demo_env_def Let_def
      ra_gekkonet_udp_adapter_create_def ctx_zero_def sys_zero_def)

lemma demo_datagram_fields:
  "dg_payload demo_datagram = [5, 6]" "dg_ip demo_datagram = Some ''10.0.0.2''"
  "dg_port demo_datagram = 7000" "dg_grow_ok demo_datagram" "dg_res_ok demo_datagram"
  "dg_addr_ok demo_datagram" "dg_data_ok demo_datagram"
  "copy_ok (dg_actor demo_datagram)" "handle (dg_actor demo_datagram) = 0"
  "realloc_ok (remember (dg_actor demo_datagram))" "malloc_ok (remember (dg_actor demo_datagram))"
  by (simp_all add: demo_datagram_def accept_def)

lemma discovery_tick_calls:
  "new_calls demo_sys (ra_gekkonet_update discovery_tick demo_sys)
   = [(Gekko_network_poll 1, Some [0, 0, 0, 0]), (Sys_recvfrom 3, Some [0, 0, 0, 0]),
      (Gekko_add_actor 1 RemotePlayer (Some (''10.0.0.2:7000'' @ [CHR 0x00])), Some [0, 0, 0, 0]),
      (Sys_recvfrom 3, Some [0, 0, 0, 0]), (Gekko_session_events 1, Some [0, 0, 0, 0]),
      (Gekko_update_session 1, None)]"
  by (simp add: ra_gekkonet_update_def discovery_tick_def gekko_network_poll_def
      ra_gekkonet_udp_receive_def ra_gekkonet_process_session_events_def
      ra_gekkonet_process_game_events_def new_calls_def
      udp_receive_step_def demo_datagram_def Let_def demo_sender auto_add_remote_def
      demo_known demo_sys_fields demo_sys_more ra_gekkonet_add_actor_def accept_def
      ra_gekkonet_get_current_input_def remember_input remember_keeps)


lemma demo_step_result:
  "fst (udp_receive_step 3 demo_datagram 0 demo_sys)
     = Some \<lparr>res_addr = ''10.0.0.2:7000'', res_data = [5, 6]\<rparr>"
  by (simp add: udp_receive_step_def demo_datagram_def Let_def demo_sender demo_sys_more)

lemma demo_poll_step:
  "fst (udp_receive_step 3 demo_datagram 0 (emit (Gekko_network_poll 1) demo_sys))
     = Some \<lparr>res_addr = ''10.0.0.2:7000'', res_data = [5, 6]\<rparr>"
  by (simp add: udp_receive_step_def demo_datagram_def Let_def demo_sender demo_sys_more)

lemma empty_step:
  "fst (udp_receive_step 3 empty_datagram 0 demo_sys) = None"
  by (simp add: udp_receive_step_def empty_datagram_def demo_datagram_def Let_def)

lemma discovery_pending: "pending discovery_tick = [demo_datagram]"
  by (simp add: discovery_tick_def)

theorem udp_receive_auto_discovery_witness:
  "g_udp_adapter demo_sys = Some \<lparr>sockfd = 3, owner = True\<rparr>
   \<and> session (ctx demo_sys) = Some 1 \<and> active (ctx demo_sys)
   \<and> fst (udp_receive_step 3 demo_datagram 0 demo_sys)
       = Some \<lparr>res_addr = ''10.0.0.2:7000'', res_data = [5, 6]\<rparr>
   \<and> \<not> ra_gekkonet_addr_known (ctx demo_sys) (Some ''10.0.0.2:7000'')
   \<and> actor_total (ctx demo_sys) < uint (num_players (cfg (ctx demo_sys)))
   \<and> new_calls demo_sys (snd (udp_receive_step 3 demo_datagram 0 demo_sys))
       = [(Sys_recvfrom 3, Some [0, 0, 0, 0]),
          (Gekko_add_actor 1 RemotePlayer (Some (''10.0.0.2:7000'' @ [CHR 0x00])), Some [0, 0, 0, 0])]
   \<and> remote_actor_count (ctx (snd (udp_receive_step 3 demo_datagram 0 demo_sys))) = 1
   \<and> ra_gekkonet_addr_known (ctx (snd (udp_receive_step 3 demo_datagram 0 demo_sys)))
        (Some ''10.0.0.2:7000'')
   \<and> fst (udp_receive_step 3 empty_datagram 0 demo_sys) = None
   \<and> ctx (snd (udp_receive_step 3 empty_datagram 0 demo_sys)) = ctx demo_sys
   \<and> new_calls demo_sys (snd (udp_receive_step 3 empty_datagram 0 demo_sys))
       = [(Sys_recvfrom 3, Some [0, 0, 0, 0])]
   \<and> turn_at 3 (pending discovery_tick) 0 [] (emit (Gekko_network_poll 1) demo_sys)
       = Some (0, emit (Gekko_network_poll 1) demo_sys)
   \<and> fst (udp_receive_step 3 (pending discovery_tick ! 0) 0 (emit (Gekko_network_poll 1) demo_sys))
       = Some \<lparr>res_addr = ''10.0.0.2:7000'', res_data = [5, 6]\<rparr>
   \<and> (\<exists>pre post.
         new_calls demo_sys (ra_gekkonet_update discovery_tick demo_sys)
           = (Gekko_network_poll 1, Some [0, 0, 0, 0]) # pre
             @ (Sys_recvfrom 3, Some [0, 0, 0, 0])
             # (Gekko_add_actor 1 RemotePlayer (Some (''10.0.0.2:7000'' @ [CHR 0x00])), Some [0, 0, 0, 0])
             # post
         \<and> list_all (\<lambda>k. receive_call (fst k)) pre
         \<and> (Gekko_session_events 1, Some [0, 0, 0, 0]) \<in> set post
         \<and> (Gekko_update_session 1, None) \<in> set post)"
proof -
  have cur: "ra_gekkonet_get_current_input (ctx demo_sys) = Some [0, 0, 0, 0]"
    by (simp add: ra_gekkonet_get_current_input_def demo_sys_fields)
  have below: "actor_total (ctx demo_sys) < uint (num_players (cfg (ctx demo_sys)))"
    by (simp add: demo_total demo_sys_fields)
  have st: "udp_receive_step 3 demo_datagram 0 demo_sys
              = (Some \<lparr>res_addr = ''10.0.0.2:7000'', res_data = [5, 6]\<rparr>,
                 snd (udp_receive_step 3 demo_datagram 0 demo_sys))"
    using demo_step_result by (simp add: prod_eq_iff)
  have st2: "udp_receive_step 3 demo_datagram 0 (emit (Gekko_network_poll 1) demo_sys)
              = (Some \<lparr>res_addr = ''10.0.0.2:7000'', res_data = [5, 6]\<rparr>,
                 snd (udp_receive_step 3 demo_datagram 0 (emit (Gekko_network_poll 1) demo_sys)))"
    using demo_poll_step by (simp add: prod_eq_iff)
  from udp_receive_auto_discovery
    [where s = demo_sys and ad = "\<lparr>sockfd = 3, owner = True\<rparr>" and h = 1 and d = demo_datagram
       and n = 0 and fd = 3 and r = "\<lparr>res_addr = ''10.0.0.2:7000'', res_data = [5, 6]\<rparr>"
       and s' = "snd (udp_receive_step 3 demo_datagram 0 demo_sys)"
       and ?fd3.0 = 3 and ?d3.0 = empty_datagram and ?n3.0 = 0 and ?s3.0 = demo_sys
       and ?fd1.0 = 3 and ?d1.0 = demo_datagram and ?e1.0 = "accept 0" and ?n1.0 = 0
       and ?s1.0 = demo_sys and ?s2.0 = demo_sys and ?h2.0 = 1 and e = discovery_tick
       and ?ad2.0 = "\<lparr>sockfd = 3, owner = True\<rparr>" and i = 0 and ?n2.0 = 0
       and sd = "emit (Gekko_network_poll 1) demo_sys"
       and ?r2.0 = "\<lparr>res_addr = ''10.0.0.2:7000'', res_data = [5, 6]\<rparr>"
       and sd' = "snd (udp_receive_step 3 demo_datagram 0 (emit (Gekko_network_poll 1) demo_sys))"]
    cur below st st2 demo_known [of "''10.0.0.2:7000''"] demo_addrs_wf
  show ?thesis
    by (simp add: demo_sys_fields demo_datagram_fields demo_step_result demo_poll_step
        demo_poll_step [unfolded One_nat_def] demo_sender empty_step discovery_pending list_all_iff)
qed

lemma empty_tick_calls:
  "new_calls demo_sys (ra_gekkonet_update empty_first_tick demo_sys)
   = [(Gekko_network_poll 1, Some [0, 0, 0, 0]), (Sys_recvfrom 3, Some [0, 0, 0, 0]),
      (Gekko_session_events 1, Some [0, 0, 0, 0]), (Gekko_update_session 1, None)]"
  "ctx (ra_gekkonet_update empty_first_tick demo_sys) = (ctx demo_sys)\<lparr>current_input := False\<rparr>"
  by (simp_all add: ra_gekkonet_update_def empty_first_tick_def gekko_network_poll_def
      ra_gekkonet_udp_receive_def ra_gekkonet_process_session_events_def
      ra_gekkonet_process_game_events_def new_calls_def
      udp_receive_step_def empty_datagram_def demo_datagram_def Let_def
      demo_sys_fields demo_sys_more ra_gekkonet_get_current_input_def)

text \<open>
  Claim C8 as stated, for every datagram received, fails for an empty one. The session has
  no actor yet and room for two, and \<^verbatim>\<open>10.0.0.2:7000\<close> is not known. The empty datagram from
  there ends the loop at the first \<^verbatim>\<open>recvfrom\<close>: the tick makes no \<^verbatim>\<open>gekko_add_actor\<close> call,
  no remote actor is counted and the address is still not known after the tick; the
  datagram of two bytes behind it is not read in this tick.
\<close>

theorem udp_receive_empty_datagram_counterexample:
  "pending empty_first_tick = [empty_datagram, demo_datagram]
   \<and> dg_payload empty_datagram = []
   \<and> sender_text ''10.0.0.2'' (dg_port empty_datagram) = ''10.0.0.2:7000''
   \<and> dg_ip empty_datagram = Some ''10.0.0.2''
   \<and> active (ctx demo_sys) \<and> session (ctx demo_sys) = Some 1
   \<and> g_udp_adapter demo_sys = Some \<lparr>sockfd = 3, owner = True\<rparr>
   \<and> \<not> ra_gekkonet_addr_known (ctx demo_sys) (Some ''10.0.0.2:7000'')
   \<and> actor_total (ctx demo_sys) < uint (num_players (cfg (ctx demo_sys)))
   \<and> new_calls demo_sys (ra_gekkonet_update empty_first_tick demo_sys)
       = [(Gekko_network_poll 1, Some [0, 0, 0, 0]), (Sys_recvfrom 3, Some [0, 0, 0, 0]),
          (Gekko_session_events 1, Some [0, 0, 0, 0]), (Gekko_update_session 1, None)]
   \<and> remote_actor_count (ctx (ra_gekkonet_update empty_first_tick demo_sys)) = 0
   \<and> \<not> ra_gekkonet_addr_known (ctx (ra_gekkonet_update empty_first_tick demo_sys))
          (Some ''10.0.0.2:7000'')"
proof -
  have dg: "pending empty_first_tick = [empty_datagram, demo_datagram]"
    "dg_payload empty_datagram = []" "dg_port empty_datagram = 7000"
    "dg_ip empty_datagram = Some ''10.0.0.2''"
    by (simp_all add: empty_first_tick_def empty_datagram_def demo_datagram_def)
  have after: "\<not> ra_gekkonet_addr_known (ctx (ra_gekkonet_update empty_first_tick demo_sys))
          (Some ''10.0.0.2:7000'')"
    using demo_known [of "''10.0.0.2:7000''"]
    by (simp add: empty_tick_calls(2) ra_gekkonet_addr_known_def)
  from dg after demo_known [of "''10.0.0.2:7000''"] show ?thesis
    by (simp add: empty_tick_calls demo_total demo_sys_fields demo_sender)
qed

end
